theory Spec2Isabelle
  imports Main "HOL-Library.Word"
begin

unbundle bit_operations_syntax

section \<open>The tty0tty null-modem driver (examples/tools/nullmodem/linux/module/tty0tty.c)\<close>

text \<open>
  The driver keeps a table of eight ports. Ports 2k and 2k+1 are the two ends of one
  null-modem cable: what one end writes arrives in the other end's input buffer, and the
  modem-control outputs of one end (RTS, DTR) are the modem-status inputs of the other
  (CTS, DSR and CD).

  The embedding is sequential: every driver entry point is one function from the driver
  state to the new driver state. The semaphore \<open>sem\<close> of a port is therefore not
  represented, nor are the fields \<open>serial\<close> (read by TIOCGSERIAL only) and \<open>wait\<close>
  (the wait-queue head: the driver adds and removes the caller around \<open>schedule()\<close>
  and has no \<open>wake_up\<close> call on it anywhere).
\<close>

subsection \<open>Constants\<close>

type_synonym u8 = "8 word"
type_synonym u32 = "32 word"

definition TINY_TTY_MINORS :: int where
  "TINY_TTY_MINORS = 8"

definition MCR_DTR :: u32 where "MCR_DTR = 0x01"
definition MCR_RTS :: u32 where "MCR_RTS = 0x02"
definition MCR_LOOP :: u32 where "MCR_LOOP = 0x04"

definition MSR_CTS :: u32 where "MSR_CTS = 0x10"
definition MSR_CD :: u32 where "MSR_CD = 0x20"
definition MSR_DSR :: u32 where "MSR_DSR = 0x40"
definition MSR_RI :: u32 where "MSR_RI = 0x80"

text \<open>The range of a C \<open>int\<close>, the type of \<open>open_count\<close>.\<close>

definition INT_MAX :: int where "INT_MAX = 2147483647"
definition INT_MIN :: int where "INT_MIN = - 2147483648"

text \<open>
  The \<open>TIOCM_*\<close> bit masks and the ioctl number \<open>TIOCMIWAIT\<close> come from kernel
  headers that are not part of the repository. The driver only tests masks against them,
  so they are a parameter of the functions that use them; every theorem below holds for
  all values of the parameter unless it says otherwise.
\<close>

record ioctl_h =
  TIOCM_DTR :: u32
  TIOCM_RTS :: u32
  TIOCM_LOOP :: u32
  TIOCM_CTS :: u32
  TIOCM_CAR :: u32
  TIOCM_CD :: u32
  TIOCM_RNG :: u32
  TIOCM_RI :: u32
  TIOCM_DSR :: u32
  TIOCMIWAIT :: u32

text \<open>The values of these names on Linux, used for the concrete examples.\<close>

definition linux_h :: ioctl_h where
  "linux_h = \<lparr> TIOCM_DTR = 0x002, TIOCM_RTS = 0x004, TIOCM_LOOP = 0x8000,
               TIOCM_CTS = 0x020, TIOCM_CAR = 0x040, TIOCM_CD = 0x040,
               TIOCM_RNG = 0x080, TIOCM_RI = 0x080, TIOCM_DSR = 0x100,
               TIOCMIWAIT = 0x545C \<rparr>"

text \<open>The error numbers the driver returns (negated) from its entry points.\<close>

datatype errno = ENOMEM | ENODEV | EINVAL | EFAULT | ERESTARTSYS | EIO | ENOIOCTLCMD

subsection \<open>Data\<close>

text \<open>
  \<open>struct async_icount\<close>: the transition and byte counters, with the fields that
  \<open>tty0tty_ioctl_tiocgicount\<close> copies out.
\<close>

record async_icount =
  cts :: u32
  dsr :: u32
  rng :: u32
  dcd :: u32
  rx :: u32
  tx :: u32
  frame :: u32
  overrun :: u32
  parity :: u32
  brk :: u32
  buf_overrun :: u32

text \<open>
  \<open>struct tty0tty_serial\<close>. A \<open>tty_struct\<close> is named by its index, which is all
  the driver reads through the pointer \<open>tty\<close> besides the input buffer. \<open>msr\<close> and
  \<open>mcr\<close> are C \<open>int\<close>s used as bit sets, hence words; \<open>open_count\<close> is the value
  of a C \<open>int\<close>.
\<close>

record tty0tty_serial =
  tty :: int
  open_count :: int
  msr :: u32
  mcr :: u32
  icount :: async_icount

text \<open>
  The driver state: the global \<open>tty0tty_table\<close> (\<open>None\<close> is the NULL pointer; once
  allocated, a port record stays in its slot until the module is unloaded, so a pointer
  to a port record is the number of its slot), and for the tty with a given index its
  \<open>driver_data\<close> pointer and the input (flip) buffer that the tty layer keeps for it.
  The driver does not check an index: the tty layer hands it indices from 0 to
  \<open>TINY_TTY_MINORS - 1\<close> only, and the model says nothing about a C array access
  outside that range.
\<close>

record driver =
  tty0tty_table :: "int \<Rightarrow> tty0tty_serial option"
  driver_data :: "int \<Rightarrow> int option"
  flip :: "int \<Rightarrow> u8 list"

text \<open>At module load the table is all NULL.\<close>

definition init_driver :: driver where
  "init_driver = \<lparr> tty0tty_table = (\<lambda>i. None), driver_data = (\<lambda>i. None), flip = (\<lambda>i. []) \<rparr>"

subsection \<open>The other end of the cable\<close>

text \<open>
  \<open>tty0tty_open\<close>, \<open>tty0tty_write\<close> and \<open>tty0tty_tiocmset\<close> all find the other end
  the same way: \<open>if ((index % 2) == 0) ... tty0tty_table[index+1] ... else ...
  tty0tty_table[index-1]\<close>. C's \<open>%\<close> truncates and HOL's \<open>mod\<close> floors, but both are 0
  on exactly the even numbers.
\<close>

definition partner_index :: "int \<Rightarrow> int" where
  "partner_index index = (if index mod 2 = 0 then index + 1 else index - 1)"

text \<open>The specification's wording of the same function: \<open>index XOR 1\<close>.\<close>

definition partner_of_spec :: "int \<Rightarrow> int" where
  "partner_of_spec index = index XOR 1"

text \<open>
  The guard \<open>if (tty0tty_table[p] != NULL) if (tty0tty_table[p]->open_count > 0)\<close>
  under which the three functions read or write the other end.
\<close>

definition active_partner :: "driver \<Rightarrow> int \<Rightarrow> tty0tty_serial option" where
  "active_partner s index =
     (case tty0tty_table s (partner_index index) of
        None \<Rightarrow> None
      | Some p \<Rightarrow> if open_count p > 0 then Some p else None)"

subsection \<open>open and close\<close>

text \<open>
  \<open>tty0tty_open\<close>. The argument \<open>kmalloc\<close> is what the allocator would return:
  \<open>None\<close> for NULL, otherwise a record with whatever the fresh memory holds
  (\<open>kmalloc\<close> does not clear it, and the driver initialises \<open>open_count\<close> only).
  The result is \<open>None\<close> where C gives the execution no meaning: here the increment of
  an \<open>open_count\<close> that is already \<open>INT_MAX\<close>.
\<close>

definition tty0tty_open ::
  "driver \<Rightarrow> int \<Rightarrow> tty0tty_serial option \<Rightarrow> ((errno + int) \<times> driver) option" where
  "tty0tty_open s index kmalloc =
     (let s1 = s\<lparr>driver_data := (driver_data s)(index := None)\<rparr>;
          tty0tty = (case tty0tty_table s1 index of
                       Some e \<Rightarrow> Some e
                     | None \<Rightarrow> (case kmalloc of
                                  None \<Rightarrow> None
                                | Some g \<Rightarrow> Some (g\<lparr>open_count := 0\<rparr>)))
      in case tty0tty of
           None \<Rightarrow> Some (Inl ENOMEM, s1)
         | Some e \<Rightarrow>
             let s2 = s1\<lparr>tty0tty_table := (tty0tty_table s1)(index \<mapsto> e)\<rparr>;
                 mcr0 = (case active_partner s2 index of None \<Rightarrow> 0 | Some p \<Rightarrow> mcr p);
                 msr0 = 0;
                 msr1 = (if mcr0 AND MCR_RTS = MCR_RTS then msr0 OR MSR_CTS else msr0);
                 msr2 = (if mcr0 AND MCR_DTR = MCR_DTR then (msr1 OR MSR_DSR) OR MSR_CD else msr1)
             in if open_count e = INT_MAX then None
                else Some (Inr 0,
                  s2\<lparr>tty0tty_table := (tty0tty_table s2)
                        (index \<mapsto> e\<lparr>tty := index, open_count := open_count e + 1, msr := msr2\<rparr>),
                     driver_data := (driver_data s2)(index \<mapsto> index)\<rparr>))"

text \<open>
  \<open>do_close\<close>: nothing happens when the count is zero, otherwise it is decremented
  (with no meaning in C if it is \<open>INT_MIN\<close>).
\<close>

definition do_close :: "tty0tty_serial \<Rightarrow> tty0tty_serial option" where
  "do_close e =
     (if open_count e = 0 then Some e
      else if open_count e = INT_MIN then None
      else Some (e\<lparr>open_count := open_count e - 1\<rparr>))"

text \<open>
  \<open>tty0tty_close\<close> returns nothing; it calls \<open>do_close\<close> when \<open>driver_data\<close> is
  set. \<open>None\<close> also stands for following a \<open>driver_data\<close> that points at no record.
\<close>

definition tty0tty_close :: "driver \<Rightarrow> int \<Rightarrow> driver option" where
  "tty0tty_close s t =
     (case driver_data s t of
        None \<Rightarrow> Some s
      | Some d \<Rightarrow>
          (case tty0tty_table s d of
             None \<Rightarrow> None
           | Some e \<Rightarrow>
               (case do_close e of
                  None \<Rightarrow> None
                | Some e' \<Rightarrow> Some (s\<lparr>tty0tty_table := (tty0tty_table s)(d \<mapsto> e')\<rparr>))))"

subsection \<open>write\<close>

text \<open>
  \<open>tty0tty_write\<close>. \<open>tty_insert_flip_string\<close> and \<open>tty_flip_buffer_push\<close> belong to
  the tty layer; they are taken to append the \<open>count\<close> bytes to the input buffer of the
  tty they are given.
\<close>

definition tty0tty_write ::
  "driver \<Rightarrow> int \<Rightarrow> u8 list \<Rightarrow> int \<Rightarrow> ((errno + int) \<times> driver) option" where
  "tty0tty_write s t buffer count =
     (case driver_data s t of
        None \<Rightarrow> Some (Inl ENODEV, s)
      | Some d \<Rightarrow>
          (case tty0tty_table s d of
             None \<Rightarrow> None
           | Some e \<Rightarrow>
               if open_count e = 0 then Some (Inl EINVAL, s)
               else
                 (case (case active_partner s (tty e) of
                          None \<Rightarrow> None
                        | Some p \<Rightarrow> Some (tty p)) of
                    None \<Rightarrow> Some (Inl EINVAL, s)
                  | Some ttyx \<Rightarrow>
                      Some (Inr count,
                            s\<lparr>flip := (flip s)(ttyx := flip s ttyx @ take (nat count) buffer)\<rparr>))))"

definition tty0tty_write_room :: "driver \<Rightarrow> int \<Rightarrow> (errno + int) option" where
  "tty0tty_write_room s t =
     (case driver_data s t of
        None \<Rightarrow> Some (Inl ENODEV)
      | Some d \<Rightarrow>
          (case tty0tty_table s d of
             None \<Rightarrow> None
           | Some e \<Rightarrow> if open_count e = 0 then Some (Inl EINVAL) else Some (Inr 255)))"

subsection \<open>Modem lines\<close>

text \<open>
  \<open>tty0tty_tiocmset\<close>. It dereferences \<open>driver_data\<close> without a check (\<open>None\<close> when it
  is NULL), reads the other end's \<open>msr\<close> if that end is active (0 otherwise), applies the
  four tests in the order set RTS, set DTR, clear RTS, clear DTR to \<open>mcr\<close> and \<open>msr\<close>
  together, stores \<open>mcr\<close>, and stores \<open>msr\<close> into the other end if it is active.
\<close>

definition tty0tty_tiocmset ::
  "ioctl_h \<Rightarrow> driver \<Rightarrow> int \<Rightarrow> u32 \<Rightarrow> u32 \<Rightarrow> (int \<times> driver) option" where
  "tty0tty_tiocmset h s t set_mask clear_mask =
     (case driver_data s t of
        None \<Rightarrow> None
      | Some d \<Rightarrow>
          (case tty0tty_table s d of
             None \<Rightarrow> None
           | Some e \<Rightarrow>
               let mcr0 = mcr e;
                   msr0 = (case active_partner s (tty e) of None \<Rightarrow> 0 | Some p \<Rightarrow> msr p);
                   mcr1 = (if set_mask AND TIOCM_RTS h \<noteq> 0 then mcr0 OR MCR_RTS else mcr0);
                   msr1 = (if set_mask AND TIOCM_RTS h \<noteq> 0 then msr0 OR MSR_CTS else msr0);
                   mcr2 = (if set_mask AND TIOCM_DTR h \<noteq> 0 then mcr1 OR MCR_DTR else mcr1);
                   msr2 = (if set_mask AND TIOCM_DTR h \<noteq> 0 then (msr1 OR MSR_DSR) OR MSR_CD else msr1);
                   mcr3 = (if clear_mask AND TIOCM_RTS h \<noteq> 0 then mcr2 AND NOT MCR_RTS else mcr2);
                   msr3 = (if clear_mask AND TIOCM_RTS h \<noteq> 0 then msr2 AND NOT MSR_CTS else msr2);
                   mcr4 = (if clear_mask AND TIOCM_DTR h \<noteq> 0 then mcr3 AND NOT MCR_DTR else mcr3);
                   msr4 = (if clear_mask AND TIOCM_DTR h \<noteq> 0
                           then (msr3 AND NOT MSR_DSR) AND NOT MSR_CD else msr3);
                   s1 = s\<lparr>tty0tty_table := (tty0tty_table s)(d \<mapsto> e\<lparr>mcr := mcr4\<rparr>)\<rparr>
               in (case active_partner s1 (tty e) of
                     None \<Rightarrow> Some (0, s1)
                   | Some p \<Rightarrow>
                       Some (0, s1\<lparr>tty0tty_table :=
                                    (tty0tty_table s1)(partner_index (tty e) \<mapsto> p\<lparr>msr := msr4\<rparr>)\<rparr>))))"

text \<open>\<open>tty0tty_tiocmget\<close> reports both registers as \<open>TIOCM_*\<close> bits.\<close>

definition tty0tty_tiocmget :: "ioctl_h \<Rightarrow> driver \<Rightarrow> int \<Rightarrow> u32 option" where
  "tty0tty_tiocmget h s t =
     (case driver_data s t of
        None \<Rightarrow> None
      | Some d \<Rightarrow>
          (case tty0tty_table s d of
             None \<Rightarrow> None
           | Some e \<Rightarrow>
               Some ((if mcr e AND MCR_DTR \<noteq> 0 then TIOCM_DTR h else 0) OR
                     (if mcr e AND MCR_RTS \<noteq> 0 then TIOCM_RTS h else 0) OR
                     (if mcr e AND MCR_LOOP \<noteq> 0 then TIOCM_LOOP h else 0) OR
                     (if msr e AND MSR_CTS \<noteq> 0 then TIOCM_CTS h else 0) OR
                     (if msr e AND MSR_CD \<noteq> 0 then TIOCM_CAR h else 0) OR
                     (if msr e AND MSR_RI \<noteq> 0 then TIOCM_RI h else 0) OR
                     (if msr e AND MSR_DSR \<noteq> 0 then TIOCM_DSR h else 0))))"

subsection \<open>Waiting for a modem-line change\<close>

text \<open>
  \<open>tty0tty_ioctl_tiocmiwait\<close> sleeps in \<open>schedule()\<close> inside \<open>while (1)\<close>. What
  happens while it sleeps is the environment's doing, so the loop takes the list of its
  future wake-ups: for each, whether a signal is pending for the caller and the value of
  the port's \<open>icount\<close> at that moment. When the list is used up the caller is never woken
  again and the call does not return: the result \<open>None\<close>.
\<close>

fun tiocmiwait_loop ::
  "ioctl_h \<Rightarrow> u32 \<Rightarrow> async_icount \<Rightarrow> (bool \<times> async_icount) list \<Rightarrow> (errno + int) option" where
  "tiocmiwait_loop h arg cprev [] = None"
| "tiocmiwait_loop h arg cprev ((signal_pending, cnow) # wakes) =
     (if signal_pending then Some (Inl ERESTARTSYS)
      else if rng cnow = rng cprev \<and> dsr cnow = dsr cprev \<and>
              dcd cnow = dcd cprev \<and> cts cnow = cts cprev then Some (Inl EIO)
      else if (arg AND TIOCM_RNG h \<noteq> 0 \<and> rng cnow \<noteq> rng cprev) \<or>
              (arg AND TIOCM_DSR h \<noteq> 0 \<and> dsr cnow \<noteq> dsr cprev) \<or>
              (arg AND TIOCM_CD h \<noteq> 0 \<and> dcd cnow \<noteq> dcd cprev) \<or>
              (arg AND TIOCM_CTS h \<noteq> 0 \<and> cts cnow \<noteq> cts cprev) then Some (Inr 0)
      else tiocmiwait_loop h arg cnow wakes)"

definition tty0tty_ioctl_tiocmiwait ::
  "ioctl_h \<Rightarrow> driver \<Rightarrow> int \<Rightarrow> u32 \<Rightarrow> u32 \<Rightarrow> (bool \<times> async_icount) list \<Rightarrow> (errno + int) option" where
  "tty0tty_ioctl_tiocmiwait h s t cmd arg wakes =
     (case driver_data s t of
        None \<Rightarrow> (if cmd = TIOCMIWAIT h then None else Some (Inl ENOIOCTLCMD))
      | Some d \<Rightarrow>
          (case tty0tty_table s d of
             None \<Rightarrow> (if cmd = TIOCMIWAIT h then None else Some (Inl ENOIOCTLCMD))
           | Some e \<Rightarrow>
               if cmd = TIOCMIWAIT h then tiocmiwait_loop h arg (icount e) wakes
               else Some (Inl ENOIOCTLCMD)))"

section \<open>Notions used in the statements\<close>

subsection \<open>A tty attached to its port\<close>

text \<open>
  After a successful \<open>tty0tty_open\<close> of the tty with index \<open>t\<close>, its \<open>driver_data\<close>
  points at the port record in slot \<open>t\<close> of the table, and the record's \<open>tty\<close> pointer
  points back at that tty. The modem-line entry points are called by the tty layer on ttys
  in this condition only.
\<close>

definition attached :: "driver \<Rightarrow> int \<Rightarrow> tty0tty_serial \<Rightarrow> bool" where
  "attached s t e \<longleftrightarrow> driver_data s t = Some t \<and> tty0tty_table s t = Some e \<and> tty e = t"

text \<open>
  The condition of the whole driver state that every entry point keeps: counts are not
  negative, each record points back at the tty of its own slot, and the \<open>driver_data\<close>
  of a tty is set exactly when its slot holds a record, at which it then points.
\<close>

definition wf_driver :: "driver \<Rightarrow> bool" where
  "wf_driver s \<longleftrightarrow>
     (\<forall>i e. tty0tty_table s i = Some e \<longrightarrow> 0 \<le> open_count e \<and> tty e = i) \<and>
     (\<forall>t d. driver_data s t = Some d \<longrightarrow> d = t \<and> tty0tty_table s t \<noteq> None) \<and>
     (\<forall>t. tty0tty_table s t \<noteq> None \<longrightarrow> driver_data s t = Some t)"

subsection \<open>Sequences of calls\<close>

text \<open>
  A history of the driver is a list of calls of its state-changing entry points, run from
  some state; it is \<open>None\<close> as soon as one call has no defined result.
\<close>

datatype call =
    Open int "tty0tty_serial option"
  | Close int
  | Write int "u8 list" int
  | Tiocmset int u32 u32

fun step :: "ioctl_h \<Rightarrow> driver \<Rightarrow> call \<Rightarrow> driver option" where
  "step h s (Open t kmalloc) = map_option snd (tty0tty_open s t kmalloc)"
| "step h s (Close t) = tty0tty_close s t"
| "step h s (Write t buffer count) = map_option snd (tty0tty_write s t buffer count)"
| "step h s (Tiocmset t set_mask clear_mask) =
     map_option snd (tty0tty_tiocmset h s t set_mask clear_mask)"

fun run :: "ioctl_h \<Rightarrow> driver \<Rightarrow> call list \<Rightarrow> driver option" where
  "run h s [] = Some s"
| "run h s (c # cs) = (case step h s c of None \<Rightarrow> None | Some s' \<Rightarrow> run h s' cs)"

subsection \<open>The register values a call computes\<close>

text \<open>
  The value that the four tests of \<open>tty0tty_tiocmset\<close> leave in its local \<open>mcr\<close>, and
  the value they leave in its local \<open>msr\<close>, as functions of the value before.
\<close>

definition mcr_bits :: "ioctl_h \<Rightarrow> u32 \<Rightarrow> u32 \<Rightarrow> u32 \<Rightarrow> u32" where
  "mcr_bits h set_mask clear_mask mcr0 =
     (let mcr1 = (if set_mask AND TIOCM_RTS h \<noteq> 0 then mcr0 OR MCR_RTS else mcr0);
          mcr2 = (if set_mask AND TIOCM_DTR h \<noteq> 0 then mcr1 OR MCR_DTR else mcr1);
          mcr3 = (if clear_mask AND TIOCM_RTS h \<noteq> 0 then mcr2 AND NOT MCR_RTS else mcr2)
      in if clear_mask AND TIOCM_DTR h \<noteq> 0 then mcr3 AND NOT MCR_DTR else mcr3)"

definition msr_bits :: "ioctl_h \<Rightarrow> u32 \<Rightarrow> u32 \<Rightarrow> u32 \<Rightarrow> u32" where
  "msr_bits h set_mask clear_mask msr0 =
     (let msr1 = (if set_mask AND TIOCM_RTS h \<noteq> 0 then msr0 OR MSR_CTS else msr0);
          msr2 = (if set_mask AND TIOCM_DTR h \<noteq> 0 then (msr1 OR MSR_DSR) OR MSR_CD else msr1);
          msr3 = (if clear_mask AND TIOCM_RTS h \<noteq> 0 then msr2 AND NOT MSR_CTS else msr2)
      in if clear_mask AND TIOCM_DTR h \<noteq> 0 then (msr3 AND NOT MSR_DSR) AND NOT MSR_CD else msr3)"

text \<open>
  The value \<open>tty0tty_open\<close> stores in \<open>msr\<close>, as a function of the \<open>mcr\<close> it has
  read, and the \<open>mcr\<close> it reads: the other end's if that end is active, else 0.
\<close>

definition msr_seed :: "u32 \<Rightarrow> u32" where
  "msr_seed mcr0 =
     (let msr1 = (if mcr0 AND MCR_RTS = MCR_RTS then 0 OR MSR_CTS else 0)
      in if mcr0 AND MCR_DTR = MCR_DTR then (msr1 OR MSR_DSR) OR MSR_CD else msr1)"

definition partner_mcr :: "driver \<Rightarrow> int \<Rightarrow> u32" where
  "partner_mcr s index = (case active_partner s index of None \<Rightarrow> 0 | Some p \<Rightarrow> mcr p)"

subsection \<open>Example states\<close>

text \<open>
  Memory that happens to be all zero, the two ports of the first cable after one open
  each, and the states used in the examples below. \<open>only_A_open\<close> and \<open>both_open\<close>
  are reached from the initial state by one and two opens.
\<close>

definition zero_icount :: async_icount where
  "zero_icount = \<lparr> cts = 0, dsr = 0, rng = 0, dcd = 0, rx = 0, tx = 0, frame = 0,
                    overrun = 0, parity = 0, brk = 0, buf_overrun = 0 \<rparr>"

definition zeroed :: tty0tty_serial where
  "zeroed = \<lparr> tty = 0, open_count = 0, msr = 0, mcr = 0, icount = zero_icount \<rparr>"

definition port_A :: tty0tty_serial where
  "port_A = \<lparr> tty = 0, open_count = 1, msr = 0, mcr = 0, icount = zero_icount \<rparr>"

definition port_B :: tty0tty_serial where
  "port_B = \<lparr> tty = 1, open_count = 1, msr = 0, mcr = 0, icount = zero_icount \<rparr>"

definition only_A_open :: driver where
  "only_A_open = \<lparr> tty0tty_table = [0 \<mapsto> port_A], driver_data = [0 \<mapsto> 0], flip = (\<lambda>i. []) \<rparr>"

definition both_open :: driver where
  "both_open = \<lparr> tty0tty_table = [0 \<mapsto> port_A, 1 \<mapsto> port_B],
                  driver_data = [0 \<mapsto> 0, 1 \<mapsto> 1], flip = (\<lambda>i. []) \<rparr>"

definition rts_raised :: driver where
  "rts_raised = \<lparr> tty0tty_table = [0 \<mapsto> port_A\<lparr>mcr := MCR_RTS\<rparr>, 1 \<mapsto> port_B\<lparr>msr := MSR_CTS\<rparr>],
                   driver_data = [0 \<mapsto> 0, 1 \<mapsto> 1], flip = (\<lambda>i. []) \<rparr>"

definition lines_raised :: driver where
  "lines_raised = \<lparr> tty0tty_table = [0 \<mapsto> port_A\<lparr>mcr := MCR_RTS OR MCR_DTR\<rparr>,
                                       1 \<mapsto> port_B\<lparr>msr := MSR_CTS OR MSR_DSR OR MSR_CD\<rparr>],
                     driver_data = [0 \<mapsto> 0, 1 \<mapsto> 1], flip = (\<lambda>i. []) \<rparr>"

definition A_rts_alone :: driver where
  "A_rts_alone = \<lparr> tty0tty_table = [0 \<mapsto> port_A\<lparr>mcr := MCR_RTS\<rparr>],
                    driver_data = [0 \<mapsto> 0], flip = (\<lambda>i. []) \<rparr>"

definition ringing :: driver where
  "ringing = \<lparr> tty0tty_table = [0 \<mapsto> port_A, 1 \<mapsto> port_B\<lparr>msr := MSR_RI, mcr := MCR_DTR\<rparr>],
                driver_data = [0 \<mapsto> 0, 1 \<mapsto> 1], flip = (\<lambda>i. []) \<rparr>"

definition ringing_rts :: driver where
  "ringing_rts = \<lparr> tty0tty_table = [0 \<mapsto> port_A\<lparr>mcr := MCR_RTS\<rparr>,
                                      1 \<mapsto> port_B\<lparr>msr := MSR_RI OR MSR_CTS, mcr := MCR_DTR\<rparr>],
                    driver_data = [0 \<mapsto> 0, 1 \<mapsto> 1], flip = (\<lambda>i. []) \<rparr>"

definition A_closed :: driver where
  "A_closed = \<lparr> tty0tty_table = [0 \<mapsto> port_A\<lparr>open_count := 0\<rparr>],
                 driver_data = [0 \<mapsto> 0], flip = (\<lambda>i. []) \<rparr>"

definition B_lines_up :: driver where
  "B_lines_up = \<lparr> tty0tty_table = [1 \<mapsto> port_B\<lparr>mcr := MCR_RTS OR MCR_DTR\<rparr>],
                   driver_data = [1 \<mapsto> 1], flip = (\<lambda>i. []) \<rparr>"

definition A_joined :: driver where
  "A_joined = \<lparr> tty0tty_table = [1 \<mapsto> port_B\<lparr>mcr := MCR_RTS OR MCR_DTR\<rparr>,
                                   0 \<mapsto> port_A\<lparr>msr := MSR_CTS OR MSR_DSR OR MSR_CD\<rparr>],
                 driver_data = [1 \<mapsto> 1, 0 \<mapsto> 0], flip = (\<lambda>i. []) \<rparr>"

definition B_gone :: driver where
  "B_gone = \<lparr> tty0tty_table = [1 \<mapsto> port_B\<lparr>mcr := MCR_RTS OR MCR_DTR, open_count := 0\<rparr>,
                                 0 \<mapsto> port_A\<lparr>msr := MSR_CTS OR MSR_DSR OR MSR_CD\<rparr>],
               driver_data = [1 \<mapsto> 1, 0 \<mapsto> 0], flip = (\<lambda>i. []) \<rparr>"

definition A_reopened :: driver where
  "A_reopened = \<lparr> tty0tty_table = [1 \<mapsto> port_B\<lparr>mcr := MCR_RTS OR MCR_DTR, open_count := 0\<rparr>,
                                     0 \<mapsto> port_A\<lparr>open_count := 2\<rparr>],
                   driver_data = [1 \<mapsto> 1, 0 \<mapsto> 0], flip = (\<lambda>i. []) \<rparr>"

text \<open>Counter values for the wake-ups of the waiting example.\<close>

definition dsr_once :: async_icount where
  "dsr_once = zero_icount\<lparr>dsr := 1\<rparr>"

definition cts_once :: async_icount where
  "cts_once = dsr_once\<lparr>cts := 1\<rparr>"

subsection \<open>A wake-up that settles nothing\<close>

text \<open>
  A wake-up of \<open>tty0tty_ioctl_tiocmiwait\<close> after which the loop goes round again: no
  signal is pending, the four counters are not all what they were at the last look, and
  no counter asked for in \<open>arg\<close> has changed.
\<close>

definition undecided :: "ioctl_h \<Rightarrow> u32 \<Rightarrow> async_icount \<Rightarrow> bool \<times> async_icount \<Rightarrow> bool" where
  "undecided h arg cprev w \<longleftrightarrow>
     (case w of (signal_pending, cnow) \<Rightarrow>
        \<not> signal_pending \<and>
        \<not> (rng cnow = rng cprev \<and> dsr cnow = dsr cprev \<and>
           dcd cnow = dcd cprev \<and> cts cnow = cts cprev) \<and>
        \<not> ((arg AND TIOCM_RNG h \<noteq> 0 \<and> rng cnow \<noteq> rng cprev) \<or>
           (arg AND TIOCM_DSR h \<noteq> 0 \<and> dsr cnow \<noteq> dsr cprev) \<or>
           (arg AND TIOCM_CD h \<noteq> 0 \<and> dcd cnow \<noteq> dcd cprev) \<or>
           (arg AND TIOCM_CTS h \<noteq> 0 \<and> cts cnow \<noteq> cts cprev)))"


section \<open>Properties\<close>

subsection \<open>The pairing\<close>

lemma partner_index_neq: "partner_index i \<noteq> i"
  by (simp add: partner_index_def)

lemma partner_index_twice: "partner_index (partner_index i) = i"
  unfolding partner_index_def by presburger

text \<open>
  C7. On the valid indices \<open>0 \<le> i < TINY_TTY_MINORS\<close> the way the driver finds the
  other end of the cable is an involution without a fixed point, it stays inside the valid
  range (so it is total there), and it is the function \<open>index XOR 1\<close> of the
  specification.
\<close>

theorem partner_index_involution:
  assumes "0 \<le> i" and "i < TINY_TTY_MINORS"
  shows "partner_index (partner_index i) = i \<and> partner_index i \<noteq> i \<and>
         0 \<le> partner_index i \<and> partner_index i < TINY_TTY_MINORS \<and>
         partner_index i = partner_of_spec i"
proof -
  have "partner_index i = partner_of_spec i"
    unfolding partner_index_def partner_of_spec_def
    by (simp add: xor_one_eq even_iff_mod_2_eq_zero)
  moreover have "partner_index (partner_index i) = i"
    unfolding partner_index_def by presburger
  moreover have "partner_index i \<noteq> i"
    unfolding partner_index_def by simp
  moreover have "0 \<le> partner_index i \<and> partner_index i < TINY_TTY_MINORS"
    using assms unfolding partner_index_def TINY_TTY_MINORS_def by presburger
  ultimately show ?thesis by blast
qed

theorem partner_index_involution_witness:
  "(0::int) \<le> 6 \<and> 6 < TINY_TTY_MINORS \<and> partner_index 6 = 7 \<and>
   partner_index (partner_index 6) = 6 \<and> partner_of_spec 6 = 7"
  using partner_index_involution [of 6]
  by (simp add: TINY_TTY_MINORS_def partner_index_def)

subsection \<open>Register bits\<close>

text \<open>Each \<open>MCR_*\<close> and \<open>MSR_*\<close> constant is one bit.\<close>

lemma bit_pow2_u32: "m < 32 \<Longrightarrow> bit ((2::u32) ^ m) n \<longleftrightarrow> n = m"
  by (auto simp add: bit_exp_iff simp del: power_numeral)

lemma bit_MSR [simp]:
  "bit MSR_CTS n \<longleftrightarrow> n = 4" "bit MSR_CD n \<longleftrightarrow> n = 5"
  "bit MSR_DSR n \<longleftrightarrow> n = 6" "bit MSR_RI n \<longleftrightarrow> n = 7"
proof -
  have p: "MSR_CTS = 2 ^ 4" "MSR_CD = 2 ^ 5" "MSR_DSR = 2 ^ 6" "MSR_RI = 2 ^ 7"
    by (simp_all add: MSR_CTS_def MSR_CD_def MSR_DSR_def MSR_RI_def)
  show "bit MSR_CTS n \<longleftrightarrow> n = 4" "bit MSR_CD n \<longleftrightarrow> n = 5"
       "bit MSR_DSR n \<longleftrightarrow> n = 6" "bit MSR_RI n \<longleftrightarrow> n = 7"
    unfolding p by (rule bit_pow2_u32, simp)+
qed

lemma bit_MCR [simp]:
  "bit MCR_DTR n \<longleftrightarrow> n = 0" "bit MCR_RTS n \<longleftrightarrow> n = 1" "bit MCR_LOOP n \<longleftrightarrow> n = 2"
proof -
  have p: "MCR_DTR = 2 ^ 0" "MCR_RTS = 2 ^ 1" "MCR_LOOP = 2 ^ 2"
    by (simp_all add: MCR_DTR_def MCR_RTS_def MCR_LOOP_def)
  show "bit MCR_DTR n \<longleftrightarrow> n = 0" "bit MCR_RTS n \<longleftrightarrow> n = 1" "bit MCR_LOOP n \<longleftrightarrow> n = 2"
    unfolding p by (rule bit_pow2_u32, simp)+
qed

text \<open>Bit by bit, what the four tests of \<open>tty0tty_tiocmset\<close> do to the two registers.\<close>

lemma msr_bits_bit:
  "bit (msr_bits h sm cm x) n \<longleftrightarrow>
     (if n = 4 then (if cm AND TIOCM_RTS h \<noteq> 0 then False
                     else if sm AND TIOCM_RTS h \<noteq> 0 then True else bit x n)
      else if n = 5 \<or> n = 6 then (if cm AND TIOCM_DTR h \<noteq> 0 then False
                     else if sm AND TIOCM_DTR h \<noteq> 0 then True else bit x n)
      else bit x n)"
  unfolding msr_bits_def Let_def
  by (auto simp add: bit_and_iff bit_or_iff bit_not_iff dest: bit_imp_le_length)

lemma mcr_bits_bit:
  "bit (mcr_bits h sm cm x) n \<longleftrightarrow>
     (if n = 1 then (if cm AND TIOCM_RTS h \<noteq> 0 then False
                     else if sm AND TIOCM_RTS h \<noteq> 0 then True else bit x n)
      else if n = 0 then (if cm AND TIOCM_DTR h \<noteq> 0 then False
                     else if sm AND TIOCM_DTR h \<noteq> 0 then True else bit x n)
      else bit x n)"
  unfolding mcr_bits_def Let_def
  by (auto simp add: bit_and_iff bit_or_iff bit_not_iff dest: bit_imp_le_length)

lemma msr_bits_CTS:
  "msr_bits h sm cm x AND MSR_CTS =
     (if cm AND TIOCM_RTS h \<noteq> 0 then 0
      else if sm AND TIOCM_RTS h \<noteq> 0 then MSR_CTS else x AND MSR_CTS)"
  by (rule bit_eqI) (auto simp add: bit_and_iff msr_bits_bit)

lemma msr_bits_DSR:
  "msr_bits h sm cm x AND MSR_DSR =
     (if cm AND TIOCM_DTR h \<noteq> 0 then 0
      else if sm AND TIOCM_DTR h \<noteq> 0 then MSR_DSR else x AND MSR_DSR)"
  by (rule bit_eqI) (auto simp add: bit_and_iff msr_bits_bit)

lemma msr_bits_CD:
  "msr_bits h sm cm x AND MSR_CD =
     (if cm AND TIOCM_DTR h \<noteq> 0 then 0
      else if sm AND TIOCM_DTR h \<noteq> 0 then MSR_CD else x AND MSR_CD)"
  by (rule bit_eqI) (auto simp add: bit_and_iff msr_bits_bit)

lemma msr_bits_RI: "msr_bits h sm cm x AND MSR_RI = x AND MSR_RI"
  by (rule bit_eqI) (auto simp add: bit_and_iff msr_bits_bit)

lemma msr_bits_rest:
  "msr_bits h sm cm x AND NOT (MSR_CTS OR MSR_DSR OR MSR_CD) =
     x AND NOT (MSR_CTS OR MSR_DSR OR MSR_CD)"
  by (rule bit_eqI) (auto simp add: bit_and_iff bit_or_iff bit_not_iff msr_bits_bit)

lemma mcr_bits_RTS:
  "mcr_bits h sm cm x AND MCR_RTS =
     (if cm AND TIOCM_RTS h \<noteq> 0 then 0
      else if sm AND TIOCM_RTS h \<noteq> 0 then MCR_RTS else x AND MCR_RTS)"
  by (rule bit_eqI) (auto simp add: bit_and_iff mcr_bits_bit)

lemma mcr_bits_DTR:
  "mcr_bits h sm cm x AND MCR_DTR =
     (if cm AND TIOCM_DTR h \<noteq> 0 then 0
      else if sm AND TIOCM_DTR h \<noteq> 0 then MCR_DTR else x AND MCR_DTR)"
  by (rule bit_eqI) (auto simp add: bit_and_iff mcr_bits_bit)

lemma mcr_bits_LOOP: "mcr_bits h sm cm x AND MCR_LOOP = x AND MCR_LOOP"
  by (rule bit_eqI) (auto simp add: bit_and_iff mcr_bits_bit)

lemma mcr_bits_rest:
  "mcr_bits h sm cm x AND NOT (MCR_RTS OR MCR_DTR) = x AND NOT (MCR_RTS OR MCR_DTR)"
  by (rule bit_eqI) (auto simp add: bit_and_iff bit_or_iff bit_not_iff mcr_bits_bit)

lemma or_mask_test:
  fixes m l b :: u32
  assumes "l AND b = 0"
  shows "(m OR l) AND b = m AND b"
  using assms by (simp add: bit.conj_disj_distrib2)

subsection \<open>The shape of the results\<close>

lemma active_partner_upd_self:
  "active_partner (s\<lparr>tty0tty_table := (tty0tty_table s)(t \<mapsto> e')\<rparr>) t = active_partner s t"
  by (simp add: active_partner_def partner_index_neq)

lemma active_partner_upd_self2:
  "active_partner (s\<lparr>driver_data := dd, tty0tty_table := (tty0tty_table s)(t \<mapsto> e')\<rparr>) t
     = active_partner s t"
  by (simp add: active_partner_def partner_index_neq)

lemma active_partner_table:
  assumes "active_partner s t = Some p"
  shows "tty0tty_table s (partner_index t) = Some p \<and> 0 < open_count p"
  using assms by (auto simp add: active_partner_def split: option.splits if_splits)

lemma tiocmset_inactive:
  assumes "attached s t e" and "active_partner s t = None"
  shows "tty0tty_tiocmset h s t set_mask clear_mask =
           Some (0, s\<lparr>tty0tty_table := (tty0tty_table s)
                      (t \<mapsto> e\<lparr>mcr := mcr_bits h set_mask clear_mask (mcr e)\<rparr>)\<rparr>)"
  using assms
  by (simp add: tty0tty_tiocmset_def attached_def Let_def active_partner_upd_self mcr_bits_def)

lemma tiocmset_active:
  assumes "attached s t e" and "active_partner s t = Some p"
  shows "tty0tty_tiocmset h s t set_mask clear_mask =
           Some (0, s\<lparr>tty0tty_table := (tty0tty_table s)
                      (t \<mapsto> e\<lparr>mcr := mcr_bits h set_mask clear_mask (mcr e)\<rparr>,
                       partner_index t \<mapsto> p\<lparr>msr := msr_bits h set_mask clear_mask (msr p)\<rparr>)\<rparr>)"
  using assms
  by (simp add: tty0tty_tiocmset_def attached_def Let_def active_partner_upd_self
                mcr_bits_def msr_bits_def)

text \<open>Only the RTS and DTR tests of the two masks matter to \<open>tty0tty_tiocmset\<close>.\<close>

lemma tiocmset_cong:
  assumes "(sm' AND TIOCM_RTS h \<noteq> 0) = (sm AND TIOCM_RTS h \<noteq> 0)"
      and "(sm' AND TIOCM_DTR h \<noteq> 0) = (sm AND TIOCM_DTR h \<noteq> 0)"
      and "(cm' AND TIOCM_RTS h \<noteq> 0) = (cm AND TIOCM_RTS h \<noteq> 0)"
      and "(cm' AND TIOCM_DTR h \<noteq> 0) = (cm AND TIOCM_DTR h \<noteq> 0)"
  shows "tty0tty_tiocmset h s t sm' cm' = tty0tty_tiocmset h s t sm cm"
  by (simp only: tty0tty_tiocmset_def assms)

lemma open_existing:
  assumes "tty0tty_table s t = Some e"
  shows "tty0tty_open s t kmalloc =
           (if open_count e = INT_MAX then None
            else Some (Inr 0, s\<lparr>tty0tty_table := (tty0tty_table s)
                         (t \<mapsto> e\<lparr>tty := t, open_count := open_count e + 1,
                                  msr := msr_seed (partner_mcr s t)\<rparr>),
                       driver_data := (driver_data s)(t \<mapsto> t)\<rparr>))"
  using assms
  by (simp add: tty0tty_open_def Let_def active_partner_upd_self2 msr_seed_def partner_mcr_def)

lemma open_create:
  assumes "tty0tty_table s t = None"
  shows "tty0tty_open s t (Some g) =
           Some (Inr 0, s\<lparr>tty0tty_table := (tty0tty_table s)
                         (t \<mapsto> g\<lparr>tty := t, open_count := 1,
                                  msr := msr_seed (partner_mcr s t)\<rparr>),
                       driver_data := (driver_data s)(t \<mapsto> t)\<rparr>)"
  using assms
  by (simp add: tty0tty_open_def Let_def active_partner_upd_self2 msr_seed_def partner_mcr_def
        INT_MAX_def)

lemma open_nomem:
  assumes "tty0tty_table s t = None"
  shows "tty0tty_open s t None = Some (Inl ENOMEM, s\<lparr>driver_data := (driver_data s)(t := None)\<rparr>)"
  using assms by (simp add: tty0tty_open_def)

text \<open>A successful open leaves the tty attached to its port.\<close>

lemma open_attaches:
  assumes "tty0tty_open s t kmalloc = Some (Inr x, s')"
  shows "\<exists>e'. attached s' t e'"
proof (cases "tty0tty_table s t")
  case (Some e)
  with assms show ?thesis
    by (auto simp add: open_existing attached_def split: if_splits)
next
  case None
  with assms show ?thesis
    by (cases kmalloc) (auto simp add: open_create open_nomem attached_def)
qed

lemma write_table:
  assumes "tty0tty_write s t buffer count = Some (r, s')"
  shows "tty0tty_table s' = tty0tty_table s \<and> driver_data s' = driver_data s"
  using assms
  by (auto simp add: tty0tty_write_def split: option.splits if_splits)

subsection \<open>What every call keeps\<close>

lemma wf_init: "wf_driver init_driver"
  by (simp add: wf_driver_def init_driver_def)

lemma wf_attached:
  assumes "wf_driver s" and "driver_data s t = Some d"
  shows "d = t \<and> (\<exists>e. attached s t e)"
proof -
  from assms have d: "d = t" and "tty0tty_table s t \<noteq> None"
    unfolding wf_driver_def by blast+
  then obtain e where e: "tty0tty_table s t = Some e" by blast
  with assms(1) have "tty e = t" unfolding wf_driver_def by blast
  with d e assms(2) show ?thesis unfolding attached_def by blast
qed

lemma wf_upd:
  assumes "wf_driver s" and "0 \<le> open_count e'" and "tty e' = t"
      and "tty0tty_table s t \<noteq> None"
  shows "wf_driver (s\<lparr>tty0tty_table := (tty0tty_table s)(t \<mapsto> e')\<rparr>)"
  using assms unfolding wf_driver_def by auto

lemma wf_upd_dd:
  assumes "wf_driver s" and "0 \<le> open_count e'" and "tty e' = t"
  shows "wf_driver (s\<lparr>tty0tty_table := (tty0tty_table s)(t \<mapsto> e'),
                       driver_data := (driver_data s)(t \<mapsto> t)\<rparr>)"
  using assms unfolding wf_driver_def by auto

lemma wf_open:
  assumes "wf_driver s" and "tty0tty_open s t kmalloc = Some (r, s')"
  shows "wf_driver s'"
proof (cases "tty0tty_table s t")
  case (Some e)
  with assms(1) have "0 \<le> open_count e" unfolding wf_driver_def by blast
  with assms Some show ?thesis
    by (auto simp add: open_existing split: if_splits intro!: wf_upd_dd)
next
  case None
  show ?thesis
  proof (cases kmalloc)
    case (Some g)
    with assms None show ?thesis
      by (auto simp add: open_create intro!: wf_upd_dd)
  next
    case N: None
    from assms(2) None N have "s' = s\<lparr>driver_data := (driver_data s)(t := None)\<rparr>"
      by (simp add: open_nomem)
    with assms(1) None show ?thesis unfolding wf_driver_def by auto
  qed
qed

lemma wf_close:
  assumes "wf_driver s" and "tty0tty_close s t = Some s'"
  shows "wf_driver s'"
proof (cases "driver_data s t")
  case None
  with assms show ?thesis by (simp add: tty0tty_close_def)
next
  case (Some d)
  with assms(1) obtain e where e: "attached s t e" and d: "d = t"
    using wf_attached by blast
  then have te: "tty0tty_table s t = Some e" by (simp add: attached_def)
  with assms(1) have nn: "0 \<le> open_count e" unfolding wf_driver_def by blast
  from assms(2) Some d te obtain e' where
    e': "do_close e = Some e'" and s': "s' = s\<lparr>tty0tty_table := (tty0tty_table s)(t \<mapsto> e')\<rparr>"
    by (auto simp add: tty0tty_close_def split: option.splits)
  from e' nn e have "0 \<le> open_count e' \<and> tty e' = t"
    by (auto simp add: do_close_def attached_def split: if_splits)
  with assms(1) s' te show ?thesis
    by (simp add: wf_upd)
qed

lemma wf_write:
  assumes "wf_driver s" and "tty0tty_write s t buffer count = Some (r, s')"
  shows "wf_driver s'"
  using assms(1) write_table [OF assms(2)]
  by (simp add: wf_driver_def)

lemma wf_tiocmset:
  assumes "wf_driver s" and "tty0tty_tiocmset h s t set_mask clear_mask = Some (r, s')"
  shows "wf_driver s'"
proof -
  from assms(2) obtain d where d: "driver_data s t = Some d"
    by (auto simp add: tty0tty_tiocmset_def split: option.splits)
  with assms(1) obtain e where e: "attached s t e"
    using wf_attached by blast
  then have te: "tty0tty_table s t = Some e" "tty e = t" by (simp_all add: attached_def)
  with assms(1) have nn: "0 \<le> open_count e" unfolding wf_driver_def by blast
  let ?e' = "e\<lparr>mcr := mcr_bits h set_mask clear_mask (mcr e)\<rparr>"
  have w1: "wf_driver (s\<lparr>tty0tty_table := (tty0tty_table s)(t \<mapsto> ?e')\<rparr>)"
    using assms(1) nn te by (simp add: wf_upd)
  show ?thesis
  proof (cases "active_partner s t")
    case None
    from tiocmset_inactive [OF e None, of h set_mask clear_mask] assms(2)
    have "s' = s\<lparr>tty0tty_table := (tty0tty_table s)(t \<mapsto> ?e')\<rparr>" by simp
    with w1 show ?thesis by simp
  next
    case (Some p)
    let ?p' = "p\<lparr>msr := msr_bits h set_mask clear_mask (msr p)\<rparr>"
    from Some have tp: "tty0tty_table s (partner_index t) = Some p"
      by (simp add: active_partner_table)
    with assms(1) have "0 \<le> open_count p \<and> tty p = partner_index t"
      unfolding wf_driver_def by blast
    then have pp: "0 \<le> open_count ?p'" "tty ?p' = partner_index t" by simp_all
    have occ: "tty0tty_table (s\<lparr>tty0tty_table := (tty0tty_table s)(t \<mapsto> ?e')\<rparr>)
                 (partner_index t) \<noteq> None"
      using tp by simp
    have "wf_driver ((s\<lparr>tty0tty_table := (tty0tty_table s)(t \<mapsto> ?e')\<rparr>)
            \<lparr>tty0tty_table := (tty0tty_table (s\<lparr>tty0tty_table := (tty0tty_table s)(t \<mapsto> ?e')\<rparr>))
                 (partner_index t \<mapsto> ?p')\<rparr>)"
      by (rule wf_upd [OF w1 pp occ])
    moreover from tiocmset_active [OF e Some, of h set_mask clear_mask] assms(2)
    have "s' = s\<lparr>tty0tty_table := (tty0tty_table s)(t \<mapsto> ?e', partner_index t \<mapsto> ?p')\<rparr>"
      by simp
    ultimately show ?thesis by simp
  qed
qed

lemma wf_step:
  assumes "wf_driver s" and "step h s c = Some s'"
  shows "wf_driver s'"
proof (cases c)
  case (Open t k)
  with assms show ?thesis by (auto intro: wf_open)
next
  case (Close t)
  with assms show ?thesis by (auto intro: wf_close)
next
  case (Write t b n)
  with assms show ?thesis by (auto intro: wf_write)
next
  case (Tiocmset t a b)
  with assms show ?thesis by (auto intro: wf_tiocmset)
qed

lemma wf_run:
  assumes "wf_driver s" and "run h s cs = Some s'"
  shows "wf_driver s'"
  using assms
proof (induction cs arbitrary: s)
  case Nil
  then show ?case by simp
next
  case (Cons c cs)
  then obtain s1 where "step h s c = Some s1" and "run h s1 cs = Some s'"
    by (auto split: option.splits)
  with Cons show ?case using wf_step by blast
qed

text \<open>
  Every state the driver reaches from module load is well formed, so every tty whose
  \<open>driver_data\<close> is set there is attached to its port.
\<close>

lemma wf_reached:
  assumes "run h init_driver cs = Some s"
  shows "wf_driver s"
  using wf_run [OF wf_init assms] .

lemma wf_slot_attached:
  assumes "wf_driver s" and "tty0tty_table s t = Some e"
  shows "attached s t e"
  using assms unfolding wf_driver_def attached_def by blast

lemma reached_attached:
  assumes "run h init_driver cs = Some s" and "tty0tty_table s t = Some e"
  shows "attached s t e"
  using wf_slot_attached [OF wf_reached [OF assms(1)] assms(2)] .

subsection \<open>The example states\<close>

lemmas example_defs =
  both_open_def only_A_open_def rts_raised_def A_closed_def port_A_def port_B_def
  zero_icount_def linux_h_def attached_def active_partner_def partner_index_def

lemmas reg_defs =
  MCR_DTR_def MCR_RTS_def MCR_LOOP_def MSR_CTS_def MSR_CD_def MSR_DSR_def MSR_RI_def

lemma only_A_open_reached:
  "run h init_driver [Open 0 (Some zeroed)] = Some only_A_open"
  by (simp add: tty0tty_open_def init_driver_def zeroed_def only_A_open_def port_A_def
        active_partner_def partner_index_def INT_MAX_def Let_def MCR_RTS_def MCR_DTR_def)

lemma both_open_reached:
  "run h init_driver [Open 0 (Some zeroed), Open 1 (Some zeroed)] = Some both_open"
  by (simp add: tty0tty_open_def init_driver_def zeroed_def both_open_def port_A_def port_B_def
        active_partner_def partner_index_def INT_MAX_def Let_def MCR_RTS_def MCR_DTR_def)

lemma attached_both_A: "attached both_open 0 port_A"
  by (simp add: example_defs)

lemma partner_both_A: "active_partner both_open 0 = Some port_B"
  by (simp add: example_defs)

lemma set_rts_both: "tty0tty_tiocmset linux_h both_open 0 0x004 0 = Some (0, rts_raised)"
  by (simp add: tty0tty_tiocmset_def Let_def example_defs reg_defs fun_upd_twist)

lemma clear_rts_again: "tty0tty_tiocmset linux_h rts_raised 0 0 0x004 = Some (0, both_open)"
  by (simp add: tty0tty_tiocmset_def Let_def example_defs reg_defs fun_upd_twist)

subsection \<open>Setting and clearing modem lines\<close>

text \<open>
  C1, as the code has it. When the tty is attached to its port and the other end of the
  cable is active, \<open>tty0tty_tiocmset\<close> returns 0 and the other end's status register
  follows the null-modem wiring: RTS in the set mask and not in the clear mask asserts CTS
  there, DTR in the set mask and not in the clear mask asserts DSR and CD; RTS in the clear
  mask clears CTS, DTR in the clear mask clears DSR and CD (the clear tests come after the
  set tests, so a bit named in both masks ends up cleared); a line named in neither mask
  leaves its status bits as they were. The LOOP bit of a mask has no effect at all: the
  LOOP bit of the caller's control register keeps its value, and whenever \<open>TIOCM_LOOP\<close>
  shares no bit with \<open>TIOCM_RTS\<close> and \<open>TIOCM_DTR\<close>, adding it to either mask gives
  the same result state.
\<close>

theorem tiocmset_wiring:
  assumes "attached s t e" and "active_partner s t = Some p"
  shows "\<exists>s' e' p'. tty0tty_tiocmset h s t set_mask clear_mask = Some (0, s') \<and>
           tty0tty_table s' t = Some e' \<and> tty0tty_table s' (partner_index t) = Some p' \<and>
           (set_mask AND TIOCM_RTS h \<noteq> 0 \<and> clear_mask AND TIOCM_RTS h = 0 \<longrightarrow>
              msr p' AND MSR_CTS = MSR_CTS) \<and>
           (set_mask AND TIOCM_DTR h \<noteq> 0 \<and> clear_mask AND TIOCM_DTR h = 0 \<longrightarrow>
              msr p' AND MSR_DSR = MSR_DSR \<and> msr p' AND MSR_CD = MSR_CD) \<and>
           (clear_mask AND TIOCM_RTS h \<noteq> 0 \<longrightarrow> msr p' AND MSR_CTS = 0) \<and>
           (clear_mask AND TIOCM_DTR h \<noteq> 0 \<longrightarrow>
              msr p' AND MSR_DSR = 0 \<and> msr p' AND MSR_CD = 0) \<and>
           (set_mask AND TIOCM_RTS h = 0 \<and> clear_mask AND TIOCM_RTS h = 0 \<longrightarrow>
              msr p' AND MSR_CTS = msr p AND MSR_CTS) \<and>
           (set_mask AND TIOCM_DTR h = 0 \<and> clear_mask AND TIOCM_DTR h = 0 \<longrightarrow>
              msr p' AND MSR_DSR = msr p AND MSR_DSR \<and> msr p' AND MSR_CD = msr p AND MSR_CD) \<and>
           mcr e' AND MCR_LOOP = mcr e AND MCR_LOOP \<and>
           (TIOCM_LOOP h AND TIOCM_RTS h = 0 \<and> TIOCM_LOOP h AND TIOCM_DTR h = 0 \<longrightarrow>
              tty0tty_tiocmset h s t (set_mask OR TIOCM_LOOP h) clear_mask = Some (0, s') \<and>
              tty0tty_tiocmset h s t set_mask (clear_mask OR TIOCM_LOOP h) = Some (0, s'))"
proof -
  let ?e' = "e\<lparr>mcr := mcr_bits h set_mask clear_mask (mcr e)\<rparr>"
  let ?p' = "p\<lparr>msr := msr_bits h set_mask clear_mask (msr p)\<rparr>"
  let ?s' = "s\<lparr>tty0tty_table := (tty0tty_table s)(t \<mapsto> ?e', partner_index t \<mapsto> ?p')\<rparr>"
  have call: "tty0tty_tiocmset h s t set_mask clear_mask = Some (0, ?s')"
    by (rule tiocmset_active [OF assms])
  have e': "tty0tty_table ?s' t = Some ?e'"
    using partner_index_neq [of t] by auto
  have p': "tty0tty_table ?s' (partner_index t) = Some ?p'"
    by simp
  have cts: "msr ?p' AND MSR_CTS =
      (if clear_mask AND TIOCM_RTS h \<noteq> 0 then 0
       else if set_mask AND TIOCM_RTS h \<noteq> 0 then MSR_CTS else msr p AND MSR_CTS)"
    by (simp add: msr_bits_CTS)
  have dsr: "msr ?p' AND MSR_DSR =
      (if clear_mask AND TIOCM_DTR h \<noteq> 0 then 0
       else if set_mask AND TIOCM_DTR h \<noteq> 0 then MSR_DSR else msr p AND MSR_DSR)"
    by (simp add: msr_bits_DSR)
  have cd: "msr ?p' AND MSR_CD =
      (if clear_mask AND TIOCM_DTR h \<noteq> 0 then 0
       else if set_mask AND TIOCM_DTR h \<noteq> 0 then MSR_CD else msr p AND MSR_CD)"
    by (simp add: msr_bits_CD)
  have loop: "mcr ?e' AND MCR_LOOP = mcr e AND MCR_LOOP"
    by (simp add: mcr_bits_LOOP)
  have indep: "tty0tty_tiocmset h s t (set_mask OR TIOCM_LOOP h) clear_mask = Some (0, ?s') \<and>
               tty0tty_tiocmset h s t set_mask (clear_mask OR TIOCM_LOOP h) = Some (0, ?s')"
    if "TIOCM_LOOP h AND TIOCM_RTS h = 0" and "TIOCM_LOOP h AND TIOCM_DTR h = 0"
  proof -
    have "tty0tty_tiocmset h s t (set_mask OR TIOCM_LOOP h) clear_mask =
          tty0tty_tiocmset h s t set_mask clear_mask"
      by (rule tiocmset_cong) (simp_all add: or_mask_test that)
    moreover have "tty0tty_tiocmset h s t set_mask (clear_mask OR TIOCM_LOOP h) =
          tty0tty_tiocmset h s t set_mask clear_mask"
      by (rule tiocmset_cong) (simp_all add: or_mask_test that)
    ultimately show ?thesis using call by simp
  qed
  show ?thesis
    apply (rule exI [of _ ?s'], rule exI [of _ ?e'], rule exI [of _ ?p'])
    apply (intro conjI impI)
    using call e' p' cts dsr cd loop indep by simp_all
qed

text \<open>
  With both ends open and all lines low, raising RTS and DTR on port 0 asserts CTS, DSR and
  CD on port 1, with or without LOOP in the set mask; a call that names no line then
  leaves the three bits asserted, and dropping RTS and DTR clears them.
\<close>

theorem tiocmset_wiring_witness:
  "attached both_open 0 port_A \<and> active_partner both_open 0 = Some port_B \<and>
   tty0tty_tiocmset linux_h both_open 0 0x006 0 = Some (0, lines_raised) \<and>
   TIOCM_LOOP linux_h AND TIOCM_RTS linux_h = 0 \<and> TIOCM_LOOP linux_h AND TIOCM_DTR linux_h = 0 \<and>
   tty0tty_tiocmset linux_h both_open 0 (0x006 OR TIOCM_LOOP linux_h) 0 = Some (0, lines_raised) \<and>
   map_option msr (tty0tty_table lines_raised 1) = Some (MSR_CTS OR MSR_DSR OR MSR_CD) \<and>
   tty0tty_tiocmset linux_h lines_raised 0 0 0 = Some (0, lines_raised) \<and>
   tty0tty_tiocmset linux_h lines_raised 0 0 0x006 = Some (0, both_open) \<and>
   map_option msr (tty0tty_table both_open 1) = Some 0"
  using tiocmset_wiring [OF attached_both_A partner_both_A, of linux_h "0x006" 0]
        tiocmset_wiring [of lines_raised 0 "port_A\<lparr>mcr := MCR_RTS OR MCR_DTR\<rparr>"
                           "port_B\<lparr>msr := MSR_CTS OR MSR_DSR OR MSR_CD\<rparr>" linux_h 0 0]
        tiocmset_wiring [of lines_raised 0 "port_A\<lparr>mcr := MCR_RTS OR MCR_DTR\<rparr>"
                           "port_B\<lparr>msr := MSR_CTS OR MSR_DSR OR MSR_CD\<rparr>" linux_h 0 "0x006"]
  by (simp add: tty0tty_tiocmset_def Let_def lines_raised_def example_defs reg_defs fun_upd_twist)

text \<open>
  The claim as it was written fails in two places. A call whose set mask names RTS does
  not assert the other end's CTS when its clear mask names RTS too: from \<open>both_open\<close>,
  where CTS of port 1 is clear, such a call returns the same state. And a call that sets
  LOOP does not change the caller's control register: it returns the same state as well,
  in which the control register of port 0 is 0.
\<close>

theorem tiocmset_wiring_counterexample:
  "tty0tty_tiocmset linux_h both_open 0 (TIOCM_RTS linux_h) (TIOCM_RTS linux_h) =
     Some (0, both_open) \<and>
   map_option msr (tty0tty_table both_open 1) = Some 0 \<and>
   (0 :: u32) AND MSR_CTS \<noteq> MSR_CTS \<and>
   tty0tty_tiocmset linux_h both_open 0 (TIOCM_LOOP linux_h) 0 = Some (0, both_open) \<and>
   map_option mcr (tty0tty_table both_open 0) = Some 0 \<and>
   (0 :: u32) AND MCR_LOOP \<noteq> MCR_LOOP"
  by (simp add: tty0tty_tiocmset_def Let_def example_defs reg_defs fun_upd_twist)

text \<open>
  C6. When the tty is attached to its port and the other end of the cable is absent or not
  open, \<open>tty0tty_tiocmset\<close> returns 0 and the new state differs from the old one in the
  caller's control register only: no other slot of the table, and so no status register
  of any other port, is written. The control register is updated as the masks ask: RTS and
  DTR are cleared if the clear mask names them, else set if the set mask names them, else
  kept, and every other bit is kept.
\<close>

theorem tiocmset_partner_inactive:
  assumes "attached s t e" and "active_partner s t = None"
  shows "\<exists>m. tty0tty_tiocmset h s t set_mask clear_mask =
               Some (0, s\<lparr>tty0tty_table := (tty0tty_table s)(t \<mapsto> e\<lparr>mcr := m\<rparr>)\<rparr>) \<and>
           m AND MCR_RTS = (if clear_mask AND TIOCM_RTS h \<noteq> 0 then 0
                            else if set_mask AND TIOCM_RTS h \<noteq> 0 then MCR_RTS
                            else mcr e AND MCR_RTS) \<and>
           m AND MCR_DTR = (if clear_mask AND TIOCM_DTR h \<noteq> 0 then 0
                            else if set_mask AND TIOCM_DTR h \<noteq> 0 then MCR_DTR
                            else mcr e AND MCR_DTR) \<and>
           m AND NOT (MCR_RTS OR MCR_DTR) = mcr e AND NOT (MCR_RTS OR MCR_DTR)"
proof -
  let ?m = "mcr_bits h set_mask clear_mask (mcr e)"
  have "tty0tty_tiocmset h s t set_mask clear_mask =
          Some (0, s\<lparr>tty0tty_table := (tty0tty_table s)(t \<mapsto> e\<lparr>mcr := ?m\<rparr>)\<rparr>)"
    by (rule tiocmset_inactive [OF assms])
  then show ?thesis
    using mcr_bits_RTS [of h set_mask clear_mask "mcr e"]
          mcr_bits_DTR [of h set_mask clear_mask "mcr e"]
          mcr_bits_rest [of h set_mask clear_mask "mcr e"]
    by blast
qed

text \<open>Port 0 open alone: raising RTS is recorded in its control register, slot 1 stays empty.\<close>

theorem tiocmset_partner_inactive_witness:
  "attached only_A_open 0 port_A \<and> active_partner only_A_open 0 = None \<and>
   tty0tty_tiocmset linux_h only_A_open 0 (TIOCM_RTS linux_h) 0 = Some (0, A_rts_alone) \<and>
   tty0tty_table A_rts_alone 1 = tty0tty_table only_A_open 1 \<and>
   map_option mcr (tty0tty_table A_rts_alone 0) = Some MCR_RTS"
  using tiocmset_partner_inactive [of only_A_open 0 port_A linux_h "TIOCM_RTS linux_h" 0]
  by (simp add: tty0tty_tiocmset_def Let_def A_rts_alone_def example_defs reg_defs)

text \<open>
  C10. A call of \<open>tty0tty_tiocmset\<close> on a tty attached to its port leaves the caller's
  own status register as it was, leaves the control register of the other end as it was,
  and changes at most the CTS, DSR and CD bits of the other end's status register: its RI
  bit, and every bit outside CTS, DSR and CD, keep their values. (The slot of the other
  end may be empty; then it stays empty.)
\<close>

theorem tiocmset_frame:
  assumes "attached s t e" and "tty0tty_tiocmset h s t set_mask clear_mask = Some (r, s')"
  shows "map_option msr (tty0tty_table s' t) = Some (msr e) \<and>
         map_option mcr (tty0tty_table s' (partner_index t)) =
           map_option mcr (tty0tty_table s (partner_index t)) \<and>
         map_option (\<lambda>q. msr q AND MSR_RI) (tty0tty_table s' (partner_index t)) =
           map_option (\<lambda>q. msr q AND MSR_RI) (tty0tty_table s (partner_index t)) \<and>
         map_option (\<lambda>q. msr q AND NOT (MSR_CTS OR MSR_DSR OR MSR_CD))
             (tty0tty_table s' (partner_index t)) =
           map_option (\<lambda>q. msr q AND NOT (MSR_CTS OR MSR_DSR OR MSR_CD))
             (tty0tty_table s (partner_index t))"
proof (cases "active_partner s t")
  case None
  from tiocmset_inactive [OF assms(1) None, of h set_mask clear_mask] assms(2)
  have "s' = s\<lparr>tty0tty_table := (tty0tty_table s)
                  (t \<mapsto> e\<lparr>mcr := mcr_bits h set_mask clear_mask (mcr e)\<rparr>)\<rparr>" by simp
  then show ?thesis by (simp add: partner_index_neq)
next
  case (Some p)
  then have tp: "tty0tty_table s (partner_index t) = Some p"
    by (simp add: active_partner_table)
  from tiocmset_active [OF assms(1) Some, of h set_mask clear_mask] assms(2)
  have "s' = s\<lparr>tty0tty_table := (tty0tty_table s)
                  (t \<mapsto> e\<lparr>mcr := mcr_bits h set_mask clear_mask (mcr e)\<rparr>,
                   partner_index t \<mapsto> p\<lparr>msr := msr_bits h set_mask clear_mask (msr p)\<rparr>)\<rparr>"
    by simp
  then show ?thesis
    using partner_index_neq [of t] tp
    by (simp add: msr_bits_RI msr_bits_rest del: bit.de_Morgan_disj)
qed

text \<open>
  Port 1 has RI in its status register and DTR in its control register; raising RTS on
  port 0 adds CTS to the former and touches neither the latter nor port 0's own status.
\<close>

theorem tiocmset_frame_witness:
  "attached ringing 0 port_A \<and>
   tty0tty_tiocmset linux_h ringing 0 (TIOCM_RTS linux_h) 0 = Some (0, ringing_rts) \<and>
   map_option msr (tty0tty_table ringing_rts 0) = Some (msr port_A) \<and>
   map_option mcr (tty0tty_table ringing_rts 1) = Some MCR_DTR \<and>
   map_option msr (tty0tty_table ringing_rts 1) = Some (MSR_RI OR MSR_CTS)"
  using tiocmset_frame [of ringing 0 port_A linux_h "TIOCM_RTS linux_h" 0 0 ringing_rts]
  by (simp add: tty0tty_tiocmset_def Let_def ringing_def ringing_rts_def example_defs reg_defs
        fun_upd_twist)

subsection \<open>The transition counters\<close>

lemma open_keeps_icount:
  assumes "tty0tty_open s t kmalloc = Some (r, s')" and "tty0tty_table s j = Some q"
  shows "\<exists>q'. tty0tty_table s' j = Some q' \<and> icount q' = icount q"
proof (cases "tty0tty_table s t")
  case (Some e)
  with assms show ?thesis
    by (cases "j = t") (auto simp add: open_existing split: if_splits)
next
  case None
  with assms show ?thesis
    by (cases kmalloc) (auto simp add: open_create open_nomem)
qed

lemma close_keeps_icount:
  assumes "tty0tty_close s t = Some s'" and "tty0tty_table s j = Some q"
  shows "\<exists>q'. tty0tty_table s' j = Some q' \<and> icount q' = icount q"
  using assms
  by (auto simp add: tty0tty_close_def do_close_def split: option.splits if_splits)

lemma write_keeps_icount:
  assumes "tty0tty_write s t buffer count = Some (r, s')" and "tty0tty_table s j = Some q"
  shows "\<exists>q'. tty0tty_table s' j = Some q' \<and> icount q' = icount q"
  using assms write_table [OF assms(1)] by simp

lemma tiocmset_keeps_icount:
  assumes "tty0tty_tiocmset h s t set_mask clear_mask = Some (r, s')"
      and "tty0tty_table s j = Some q"
  shows "\<exists>q'. tty0tty_table s' j = Some q' \<and> icount q' = icount q"
  using assms
  unfolding tty0tty_tiocmset_def Let_def active_partner_def
  by (auto split: option.splits if_splits)

lemma step_keeps_icount:
  assumes "step h s c = Some s'" and "tty0tty_table s j = Some q"
  shows "\<exists>q'. tty0tty_table s' j = Some q' \<and> icount q' = icount q"
proof (cases c)
  case (Open t k)
  with assms show ?thesis using open_keeps_icount by auto
next
  case (Close t)
  with assms show ?thesis using close_keeps_icount by auto
next
  case (Write t b n)
  with assms show ?thesis using write_keeps_icount by auto
next
  case (Tiocmset t a b)
  with assms show ?thesis using tiocmset_keeps_icount by auto
qed

lemma run_keeps_icount:
  assumes "run h s calls = Some s'" and "tty0tty_table s j = Some q"
  shows "\<exists>q'. tty0tty_table s' j = Some q' \<and> icount q' = icount q"
  using assms
proof (induction calls arbitrary: s q)
  case Nil
  then show ?case by simp
next
  case (Cons c cs)
  then obtain s1 where s1: "step h s c = Some s1" and r: "run h s1 cs = Some s'"
    by (auto split: option.splits)
  from step_keeps_icount [OF s1 Cons.prems(2)] obtain q1
    where "tty0tty_table s1 j = Some q1" and "icount q1 = icount q" by blast
  with Cons.IH [OF r] show ?case by fastforce
qed

text \<open>
  C2, as the code has it. No call of the driver writes a transition counter: after any
  sequence of open, close, write and set-modem-bits calls, every port that existed before
  has the \<open>icount\<close> it had before. In particular a \<open>tty0tty_tiocmset\<close> that flips status
  bits of the active other end leaves that end's counters as they were, and setting and
  then clearing RTS on one end leaves the CTS counter of the other end unchanged.
\<close>

theorem transition_counters_never_change:
  assumes "run h s calls = Some s'"
  shows "\<forall>j q. tty0tty_table s j = Some q \<longrightarrow>
           (\<exists>q'. tty0tty_table s' j = Some q' \<and> icount q' = icount q)"
  using run_keeps_icount [OF assms] by blast

theorem transition_counters_never_change_witness:
  "run linux_h both_open [Tiocmset 0 0x004 0, Tiocmset 0 0 0x004] = Some both_open \<and>
   tty0tty_table both_open 1 = Some port_B \<and>
   map_option icount (tty0tty_table both_open 1) = Some zero_icount"
  using transition_counters_never_change
          [of linux_h both_open "[Tiocmset 0 0x004 0, Tiocmset 0 0 0x004]" both_open]
  by (simp add: set_rts_both clear_rts_again) (simp add: example_defs)

text \<open>
  The claim as it was written fails: raising RTS on port 0 flips CTS in the status
  register of port 1 from clear to set, and dropping RTS flips it back, while the CTS
  counter of port 1 is 0 before, between and after the two calls.
\<close>

theorem tiocmset_counter_counterexample:
  "tty0tty_tiocmset linux_h both_open 0 (TIOCM_RTS linux_h) 0 = Some (0, rts_raised) \<and>
   tty0tty_tiocmset linux_h rts_raised 0 0 (TIOCM_RTS linux_h) = Some (0, both_open) \<and>
   map_option msr (tty0tty_table both_open 1) = Some 0 \<and>
   map_option msr (tty0tty_table rts_raised 1) = Some MSR_CTS \<and>
   map_option (cts \<circ> icount) (tty0tty_table both_open 1) = Some 0 \<and>
   map_option (cts \<circ> icount) (tty0tty_table rts_raised 1) = Some 0"
  by (simp add: tty0tty_tiocmset_def Let_def example_defs reg_defs fun_upd_twist)

subsection \<open>Writing data\<close>

text \<open>When both ends are open, the bytes go to the input buffer of the other end's tty.\<close>

lemma write_forwards:
  assumes "attached s t e" and "open_count e \<noteq> 0" and "active_partner s t = Some p"
  shows "tty0tty_write s t buffer count =
           Some (Inr count, s\<lparr>flip := (flip s)(tty p := flip s (tty p) @ take (nat count) buffer)\<rparr>)"
  using assms by (simp add: tty0tty_write_def attached_def)

text \<open>
  C3, as the code has it. A write on an open port whose other end is absent or not open
  fails with \<open>-EINVAL\<close> and leaves the driver state exactly as it was: no byte is
  accepted or queued and no counter changes. A write on a port that is not open fails as
  well, with \<open>-EINVAL\<close> when its \<open>open_count\<close> is 0 and with \<open>-ENODEV\<close> when the tty
  has no port record attached.
\<close>

theorem write_partner_inactive:
  "(attached s t e \<and> 0 < open_count e \<and> active_partner s t = None \<longrightarrow>
      tty0tty_write s t buffer count = Some (Inl EINVAL, s)) \<and>
   (attached s t e \<and> open_count e = 0 \<longrightarrow>
      tty0tty_write s t buffer count = Some (Inl EINVAL, s)) \<and>
   (driver_data s t = None \<longrightarrow>
      tty0tty_write s t buffer count = Some (Inl ENODEV, s))"
  by (simp add: tty0tty_write_def attached_def)

theorem write_partner_inactive_witness:
  "attached only_A_open 0 port_A \<and> 0 < open_count port_A \<and> active_partner only_A_open 0 = None \<and>
   tty0tty_write only_A_open 0 [0x41, 0x42, 0x43] 3 = Some (Inl EINVAL, only_A_open) \<and>
   attached A_closed 0 (port_A\<lparr>open_count := 0\<rparr>) \<and>
   tty0tty_write A_closed 0 [0x41, 0x42, 0x43] 3 = Some (Inl EINVAL, A_closed) \<and>
   driver_data init_driver 0 = None \<and>
   tty0tty_write init_driver 0 [0x41, 0x42, 0x43] 3 = Some (Inl ENODEV, init_driver)"
  using write_partner_inactive [of only_A_open 0 port_A "[0x41, 0x42, 0x43]" 3]
        write_partner_inactive [of A_closed 0 "port_A\<lparr>open_count := 0\<rparr>" "[0x41, 0x42, 0x43]" 3]
        write_partner_inactive [of init_driver 0 port_A "[0x41, 0x42, 0x43]" 3]
  by (simp add: example_defs init_driver_def)

text \<open>
  The claim as it was written fails: after the first open of port 0, with port 1 never
  opened, a write of three bytes on port 0 does not report three bytes accepted but
  returns \<open>-EINVAL\<close>, and the sender's \<open>tx\<close> counter is 0 afterwards as before.
\<close>

theorem write_partner_inactive_counterexample:
  "run linux_h init_driver [Open 0 (Some zeroed)] = Some only_A_open \<and>
   map_option open_count (tty0tty_table only_A_open 0) = Some 1 \<and>
   tty0tty_table only_A_open 1 = None \<and>
   tty0tty_write only_A_open 0 [0x41, 0x42, 0x43] 3 = Some (Inl EINVAL, only_A_open) \<and>
   map_option (tx \<circ> icount) (tty0tty_table only_A_open 0) = Some 0"
proof -
  have reached: "run linux_h init_driver [Open 0 (Some zeroed)] = Some only_A_open"
    by (rule only_A_open_reached)
  have "map_option open_count (tty0tty_table only_A_open 0) = Some 1 \<and>
        tty0tty_table only_A_open 1 = None \<and>
        tty0tty_write only_A_open 0 [0x41, 0x42, 0x43] 3 = Some (Inl EINVAL, only_A_open) \<and>
        map_option (tx \<circ> icount) (tty0tty_table only_A_open 0) = Some 0"
    by (simp add: tty0tty_write_def example_defs)
  with reached show ?thesis by (rule conjI)
qed

subsection \<open>Waiting for a modem-line change\<close>

lemma loop_undecided:
  assumes "undecided h arg cprev w"
  shows "tiocmiwait_loop h arg cprev (w # wakes) = tiocmiwait_loop h arg (snd w) wakes"
  using assms by (cases w) (auto simp add: undecided_def)

text \<open>
  Wake-ups that settle nothing are passed over; the loop then compares against the
  counters seen at the last of them.
\<close>

lemma loop_skip:
  assumes "\<forall>j<length pre. undecided h arg ((c0 # map snd pre) ! j) (pre ! j)"
  shows "tiocmiwait_loop h arg c0 (pre @ wakes) =
         tiocmiwait_loop h arg (last (c0 # map snd pre)) wakes"
  using assms
proof (induction pre arbitrary: c0)
  case Nil
  then show ?case by simp
next
  case (Cons w pre)
  from Cons.prems have w: "undecided h arg c0 w" by auto
  have rest: "\<forall>j<length pre. undecided h arg ((snd w # map snd pre) ! j) (pre ! j)"
  proof (intro allI impI)
    fix j assume "j < length pre"
    then have "Suc j < length (w # pre)" by simp
    with Cons.prems have "undecided h arg ((c0 # map snd (w # pre)) ! Suc j) ((w # pre) ! Suc j)"
      by blast
    then show "undecided h arg ((snd w # map snd pre) ! j) (pre ! j)" by simp
  qed
  have "tiocmiwait_loop h arg c0 ((w # pre) @ wakes) =
        tiocmiwait_loop h arg (snd w) (pre @ wakes)"
    using loop_undecided [OF w] by simp
  also have "\<dots> = tiocmiwait_loop h arg (last (snd w # map snd pre)) wakes"
    by (rule Cons.IH [OF rest])
  finally show ?case by simp
qed

text \<open>
  C4. Take a call of \<open>tty0tty_ioctl_tiocmiwait\<close> with \<open>cmd = TIOCMIWAIT\<close> on a tty
  whose \<open>driver_data\<close> points at the port record \<open>e\<close>, and any wake-up of that call
  that the loop reaches, that is, one before which every wake-up settled nothing. Let
  \<open>cprev\<close> be the previous snapshot: the counters seen at the wake-up before, or those
  of \<open>e\<close> at entry if there was none. If a signal is pending at this wake-up the call
  returns \<open>-ERESTARTSYS\<close>; otherwise, if the counters of RI, DSR, CD and CTS all equal
  the snapshot, it returns \<open>-EIO\<close>; otherwise, if a counter asked for in \<open>arg\<close>
  differs from the snapshot, it returns 0; otherwise it goes on as the loop does from the
  new snapshot with the wake-ups still to come, and if none comes it never returns.
\<close>

theorem tiocmiwait_verdict:
  assumes "driver_data s t = Some d" and "tty0tty_table s d = Some e"
      and "cmd = TIOCMIWAIT h"
      and "\<forall>j<length pre. undecided h arg ((icount e # map snd pre) ! j) (pre ! j)"
      and "cprev = last (icount e # map snd pre)"
  shows "tty0tty_ioctl_tiocmiwait h s t cmd arg (pre @ (signal_pending, cnow) # wakes) =
           (if signal_pending then Some (Inl ERESTARTSYS)
            else if rng cnow = rng cprev \<and> dsr cnow = dsr cprev \<and>
                    dcd cnow = dcd cprev \<and> cts cnow = cts cprev then Some (Inl EIO)
            else if (arg AND TIOCM_RNG h \<noteq> 0 \<and> rng cnow \<noteq> rng cprev) \<or>
                    (arg AND TIOCM_DSR h \<noteq> 0 \<and> dsr cnow \<noteq> dsr cprev) \<or>
                    (arg AND TIOCM_CD h \<noteq> 0 \<and> dcd cnow \<noteq> dcd cprev) \<or>
                    (arg AND TIOCM_CTS h \<noteq> 0 \<and> cts cnow \<noteq> cts cprev) then Some (Inr 0)
            else tiocmiwait_loop h arg cnow wakes) \<and>
         tiocmiwait_loop h arg cnow [] = None"
proof -
  have "tty0tty_ioctl_tiocmiwait h s t cmd arg (pre @ (signal_pending, cnow) # wakes) =
        tiocmiwait_loop h arg (icount e) (pre @ (signal_pending, cnow) # wakes)"
    using assms(1-3) by (simp add: tty0tty_ioctl_tiocmiwait_def)
  also have "\<dots> = tiocmiwait_loop h arg cprev ((signal_pending, cnow) # wakes)"
    unfolding assms(5) by (rule loop_skip [OF assms(4)])
  finally show ?thesis by simp
qed

text \<open>
  A caller waits on port 1 for CTS. The first wake-up finds only the DSR counter changed,
  which settles nothing. At the second wake-up: a pending signal gives \<open>-ERESTARTSYS\<close>;
  the same counters as at the first give \<open>-EIO\<close>; a changed CTS counter gives 0. With
  no second wake-up the call does not return.
\<close>

theorem tiocmiwait_verdict_witness:
  "tty0tty_ioctl_tiocmiwait linux_h both_open 1 (TIOCMIWAIT linux_h) (TIOCM_CTS linux_h)
     [(False, dsr_once), (True, dsr_once)] = Some (Inl ERESTARTSYS) \<and>
   tty0tty_ioctl_tiocmiwait linux_h both_open 1 (TIOCMIWAIT linux_h) (TIOCM_CTS linux_h)
     [(False, dsr_once), (False, dsr_once)] = Some (Inl EIO) \<and>
   tty0tty_ioctl_tiocmiwait linux_h both_open 1 (TIOCMIWAIT linux_h) (TIOCM_CTS linux_h)
     [(False, dsr_once), (False, cts_once)] = Some (Inr 0) \<and>
   tty0tty_ioctl_tiocmiwait linux_h both_open 1 (TIOCMIWAIT linux_h) (TIOCM_CTS linux_h)
     [(False, dsr_once)] = None"
  using tiocmiwait_verdict [of both_open 1 1 port_B "TIOCMIWAIT linux_h" linux_h
          "[(False, dsr_once)]" "TIOCM_CTS linux_h" dsr_once True dsr_once "[]"]
        tiocmiwait_verdict [of both_open 1 1 port_B "TIOCMIWAIT linux_h" linux_h
          "[(False, dsr_once)]" "TIOCM_CTS linux_h" dsr_once False dsr_once "[]"]
        tiocmiwait_verdict [of both_open 1 1 port_B "TIOCMIWAIT linux_h" linux_h
          "[(False, dsr_once)]" "TIOCM_CTS linux_h" dsr_once False cts_once "[]"]
        tiocmiwait_verdict [of both_open 1 1 port_B "TIOCMIWAIT linux_h" linux_h
          "[]" "TIOCM_CTS linux_h" zero_icount False dsr_once "[]"]
  by (simp add: tty0tty_ioctl_tiocmiwait_def example_defs dsr_once_def cts_once_def)

subsection \<open>Opening a port\<close>

lemma msr_seed_CTS:
  "msr_seed m AND MSR_CTS = (if m AND MCR_RTS = MCR_RTS then MSR_CTS else 0)"
  unfolding msr_seed_def Let_def
  by (rule bit_eqI) (auto simp add: bit_and_iff bit_or_iff)

lemma msr_seed_DSR:
  "msr_seed m AND MSR_DSR = (if m AND MCR_DTR = MCR_DTR then MSR_DSR else 0)"
  unfolding msr_seed_def Let_def
  by (rule bit_eqI) (auto simp add: bit_and_iff bit_or_iff)

lemma msr_seed_CD:
  "msr_seed m AND MSR_CD = (if m AND MCR_DTR = MCR_DTR then MSR_CD else 0)"
  unfolding msr_seed_def Let_def
  by (rule bit_eqI) (auto simp add: bit_and_iff bit_or_iff)

lemma msr_seed_eq:
  "msr_seed m = (if m AND MCR_RTS = MCR_RTS then MSR_CTS else 0) OR
                (if m AND MCR_DTR = MCR_DTR then MSR_DSR OR MSR_CD else 0)"
  unfolding msr_seed_def Let_def
  by (simp add: or.assoc)

text \<open>
  An open returns 0 when the port record exists (and its count can still grow) or the
  allocator delivers one; the new state is then the same in both cases.
\<close>

lemma open_succeeds:
  assumes "tty0tty_table s t = Some e \<and> open_count e \<noteq> INT_MAX \<or>
           tty0tty_table s t = None \<and> kmalloc = Some g"
  shows "\<exists>e0. (tty0tty_table s t = Some e0 \<or> tty0tty_table s t = None \<and> e0 = g\<lparr>open_count := 0\<rparr>) \<and>
           tty0tty_open s t kmalloc =
           Some (Inr 0, s\<lparr>tty0tty_table := (tty0tty_table s)
                         (t \<mapsto> e0\<lparr>tty := t, open_count := open_count e0 + 1,
                                   msr := msr_seed (partner_mcr s t)\<rparr>),
                       driver_data := (driver_data s)(t \<mapsto> t)\<rparr>)"
  using assms
proof
  assume "tty0tty_table s t = Some e \<and> open_count e \<noteq> INT_MAX"
  then show ?thesis by (auto simp add: open_existing)
next
  assume "tty0tty_table s t = None \<and> kmalloc = Some g"
  then show ?thesis by (auto simp add: open_create)
qed

text \<open>
  C5. Whenever the other end of the cable is active and the open can succeed (there is a
  port record already, or the allocator delivers one, as on the first open),
  \<open>tty0tty_open\<close> returns 0 and the opened port's status register is seeded from the other end's control
  register: CTS is asserted exactly if the other end has RTS asserted, DSR and CD exactly
  if it has DTR asserted. The open changes no transition counter: the opened port's
  \<open>icount\<close> is what it was (what the allocator delivered, for a new record), and every
  other slot of the table, the other end's among them, is as before.
\<close>

theorem open_seeds_status:
  assumes "active_partner s t = Some p"
      and "tty0tty_table s t = Some e \<and> open_count e \<noteq> INT_MAX \<or>
           tty0tty_table s t = None \<and> kmalloc = Some g"
  shows "\<exists>s' e'. tty0tty_open s t kmalloc = Some (Inr 0, s') \<and> tty0tty_table s' t = Some e' \<and>
           (mcr p AND MCR_RTS = MCR_RTS \<longrightarrow> msr e' AND MSR_CTS = MSR_CTS) \<and>
           (mcr p AND MCR_DTR = MCR_DTR \<longrightarrow>
              msr e' AND MSR_DSR = MSR_DSR \<and> msr e' AND MSR_CD = MSR_CD) \<and>
           (mcr p AND MCR_RTS \<noteq> MCR_RTS \<longrightarrow> msr e' AND MSR_CTS = 0) \<and>
           (mcr p AND MCR_DTR \<noteq> MCR_DTR \<longrightarrow> msr e' AND MSR_DSR = 0 \<and> msr e' AND MSR_CD = 0) \<and>
           icount e' = (if tty0tty_table s t = None then icount g else icount e) \<and>
           tty0tty_table s' (partner_index t) = Some p \<and>
           (\<forall>j. j \<noteq> t \<longrightarrow> tty0tty_table s' j = tty0tty_table s j)"
proof -
  from open_succeeds [OF assms(2)] obtain e0 where
    e0: "tty0tty_table s t = Some e0 \<or> tty0tty_table s t = None \<and> e0 = g\<lparr>open_count := 0\<rparr>" and
    call: "tty0tty_open s t kmalloc =
           Some (Inr 0, s\<lparr>tty0tty_table := (tty0tty_table s)
                         (t \<mapsto> e0\<lparr>tty := t, open_count := open_count e0 + 1,
                                   msr := msr_seed (partner_mcr s t)\<rparr>),
                       driver_data := (driver_data s)(t \<mapsto> t)\<rparr>)"
    by blast
  let ?e' = "e0\<lparr>tty := t, open_count := open_count e0 + 1, msr := msr_seed (mcr p)\<rparr>"
  let ?s' = "s\<lparr>tty0tty_table := (tty0tty_table s)(t \<mapsto> ?e'),
               driver_data := (driver_data s)(t \<mapsto> t)\<rparr>"
  have pm: "partner_mcr s t = mcr p"
    using assms(1) by (simp add: partner_mcr_def)
  have c: "tty0tty_open s t kmalloc = Some (Inr 0, ?s')"
    using call pm by simp
  have ic: "icount ?e' = (if tty0tty_table s t = None then icount g else icount e)"
    using e0 assms(2) by auto
  have tp: "tty0tty_table ?s' (partner_index t) = Some p"
    using active_partner_table [OF assms(1)] partner_index_neq [of t] by simp
  show ?thesis
    apply (rule exI [of _ ?s'], rule exI [of _ ?e'])
    apply (intro conjI impI allI)
    using c ic tp
    by (simp_all add: msr_seed_CTS msr_seed_DSR msr_seed_CD)
qed

text \<open>
  Port 1 is open with RTS and DTR raised and port 0 has never been opened. Its first open
  returns 0 with CTS, DSR and CD in its status register, the counters the fresh record
  came with, and port 1 untouched.
\<close>

theorem open_seeds_status_witness:
  "active_partner B_lines_up 0 = Some (port_B\<lparr>mcr := MCR_RTS OR MCR_DTR\<rparr>) \<and>
   tty0tty_table B_lines_up 0 = None \<and>
   tty0tty_open B_lines_up 0 (Some zeroed) = Some (Inr 0, A_joined) \<and>
   map_option msr (tty0tty_table A_joined 0) = Some (MSR_CTS OR MSR_DSR OR MSR_CD) \<and>
   map_option icount (tty0tty_table A_joined 0) = Some (icount zeroed) \<and>
   tty0tty_table A_joined 1 = tty0tty_table B_lines_up 1"
  using open_seeds_status [of B_lines_up 0 "port_B\<lparr>mcr := MCR_RTS OR MCR_DTR\<rparr>"
          zeroed "Some zeroed" zeroed]
  by (simp add: tty0tty_open_def Let_def INT_MAX_def zeroed_def B_lines_up_def A_joined_def
        example_defs reg_defs fun_upd_twist)

text \<open>
  C9. Every open that can succeed, of a port that already has a record as much as of a
  new one, returns 0 and stores a whole new value in the port's status register. The
  value does not depend on what the register held: it is computed from the control
  register of the other end if that end is active (CTS for RTS, DSR and CD for DTR), and
  it is 0 if the other end is absent or not open.
\<close>

theorem open_overwrites_status:
  assumes "tty0tty_table s t = Some e \<and> open_count e \<noteq> INT_MAX \<or>
           tty0tty_table s t = None \<and> kmalloc = Some g"
  shows "\<exists>s'. tty0tty_open s t kmalloc = Some (Inr 0, s') \<and>
           map_option msr (tty0tty_table s' t) =
             Some (case active_partner s t of
                     None \<Rightarrow> 0
                   | Some p \<Rightarrow> (if mcr p AND MCR_RTS = MCR_RTS then MSR_CTS else 0) OR
                               (if mcr p AND MCR_DTR = MCR_DTR then MSR_DSR OR MSR_CD else 0))"
proof -
  from open_succeeds [OF assms] obtain e0 where
    call: "tty0tty_open s t kmalloc =
           Some (Inr 0, s\<lparr>tty0tty_table := (tty0tty_table s)
                         (t \<mapsto> e0\<lparr>tty := t, open_count := open_count e0 + 1,
                                   msr := msr_seed (partner_mcr s t)\<rparr>),
                       driver_data := (driver_data s)(t \<mapsto> t)\<rparr>)"
    by blast
  have "msr_seed (partner_mcr s t) =
          (case active_partner s t of
             None \<Rightarrow> 0
           | Some p \<Rightarrow> (if mcr p AND MCR_RTS = MCR_RTS then MSR_CTS else 0) OR
                       (if mcr p AND MCR_DTR = MCR_DTR then MSR_DSR OR MSR_CD else 0))"
  proof (cases "active_partner s t")
    case None
    then show ?thesis
      by (simp add: partner_mcr_def msr_seed_eq MCR_RTS_def MCR_DTR_def)
  next
    case (Some p)
    then show ?thesis by (simp add: partner_mcr_def msr_seed_eq)
  qed
  with call show ?thesis by simp
qed

text \<open>
  Port 1 raised RTS and DTR, port 0 was opened and saw CTS, DSR and CD, then port 1 was
  closed: the state \<open>B_gone\<close>. A second open of port 0 returns 0 and leaves its status
  register all clear.
\<close>

lemma B_gone_reached:
  "run linux_h init_driver
     [Open 1 (Some zeroed), Tiocmset 1 0x006 0, Open 0 (Some zeroed), Close 1] = Some B_gone"
  by (simp add: tty0tty_open_def tty0tty_tiocmset_def tty0tty_close_def do_close_def
        init_driver_def zeroed_def B_gone_def INT_MAX_def INT_MIN_def Let_def
        example_defs reg_defs fun_upd_twist)

theorem open_overwrites_status_witness:
  "tty0tty_table B_gone 0 = Some (port_A\<lparr>msr := MSR_CTS OR MSR_DSR OR MSR_CD\<rparr>) \<and>
   open_count (port_A\<lparr>msr := MSR_CTS OR MSR_DSR OR MSR_CD\<rparr>) \<noteq> INT_MAX \<and>
   active_partner B_gone 0 = None \<and>
   tty0tty_open B_gone 0 None = Some (Inr 0, A_reopened) \<and>
   map_option msr (tty0tty_table A_reopened 0) = Some 0"
  using open_overwrites_status [of B_gone 0 "port_A\<lparr>msr := MSR_CTS OR MSR_DSR OR MSR_CD\<rparr>"
          None zeroed]
  by (simp add: tty0tty_open_def Let_def INT_MAX_def B_gone_def A_reopened_def
        example_defs reg_defs fun_upd_twist)

subsection \<open>The open count\<close>

lemma close_attached:
  assumes "attached s t e" and "0 \<le> open_count e"
  shows "tty0tty_close s t =
           Some (s\<lparr>tty0tty_table := (tty0tty_table s)
                     (t \<mapsto> (if 0 < open_count e then e\<lparr>open_count := open_count e - 1\<rparr> else e))\<rparr>)"
  using assms
  by (auto simp add: tty0tty_close_def do_close_def attached_def INT_MIN_def)

lemma upd_same_state:
  assumes "tty0tty_table s t = Some e"
  shows "s\<lparr>tty0tty_table := (tty0tty_table s)(t \<mapsto> e)\<rparr> = s"
proof -
  have "(tty0tty_table s)(t \<mapsto> e) = tty0tty_table s"
    using assms by (simp add: fun_upd_idem)
  then show ?thesis by simp
qed

lemma A_closed_reached:
  "run h init_driver [Open 0 (Some zeroed), Close 0] = Some A_closed"
  by (simp add: tty0tty_open_def tty0tty_close_def do_close_def init_driver_def zeroed_def
        A_closed_def port_A_def active_partner_def partner_index_def INT_MAX_def INT_MIN_def
        Let_def MCR_RTS_def MCR_DTR_def)

text \<open>
  C8. In every state the driver reaches from module load by calls with a defined result,
  every port record has \<open>open_count \<ge> 0\<close>. For such a record: an open of its tty
  returns 0 and adds one to the count (unless the count is \<open>INT_MAX\<close>, where the C
  increment has no defined result); \<open>do_close\<close> subtracts one when the count is
  positive and returns the record unchanged when it is 0; \<open>tty0tty_close\<close> always has a
  result, keeps every slot of the table occupied that was occupied (nothing is freed),
  leaves the count at one less when it was positive, and leaves the whole driver state as
  it was when the count was 0. A first open, which creates the record, leaves the count
  at 1.
\<close>

theorem open_count_never_negative:
  assumes "run h init_driver calls = Some s" and "tty0tty_table s t = Some e"
  shows "0 \<le> open_count e \<and>
         (open_count e \<noteq> INT_MAX \<longrightarrow>
            (\<exists>s'. tty0tty_open s t kmalloc = Some (Inr 0, s') \<and>
                  map_option open_count (tty0tty_table s' t) = Some (open_count e + 1))) \<and>
         do_close e = Some (if 0 < open_count e then e\<lparr>open_count := open_count e - 1\<rparr> else e) \<and>
         (\<exists>s'. tty0tty_close s t = Some s' \<and>
               dom (tty0tty_table s') = dom (tty0tty_table s) \<and>
               map_option open_count (tty0tty_table s' t) =
                 Some (if 0 < open_count e then open_count e - 1 else 0) \<and>
               (open_count e = 0 \<longrightarrow> s' = s)) \<and>
         (tty0tty_table s u = None \<longrightarrow>
            (\<exists>s'. tty0tty_open s u (Some g) = Some (Inr 0, s') \<and>
                  map_option open_count (tty0tty_table s' u) = Some 1))"
proof -
  have wf: "wf_driver s" by (rule wf_reached [OF assms(1)])
  with assms(2) have nn: "0 \<le> open_count e"
    unfolding wf_driver_def by blast
  have at: "attached s t e" by (rule wf_slot_attached [OF wf assms(2)])
  have op: "\<exists>s'. tty0tty_open s t kmalloc = Some (Inr 0, s') \<and>
                 map_option open_count (tty0tty_table s' t) = Some (open_count e + 1)"
    if "open_count e \<noteq> INT_MAX"
    using that assms(2) by (simp add: open_existing)
  have dc: "do_close e = Some (if 0 < open_count e then e\<lparr>open_count := open_count e - 1\<rparr> else e)"
    using nn by (auto simp add: do_close_def INT_MIN_def)
  let ?e' = "if 0 < open_count e then e\<lparr>open_count := open_count e - 1\<rparr> else e"
  let ?s' = "s\<lparr>tty0tty_table := (tty0tty_table s)(t \<mapsto> ?e')\<rparr>"
  have c: "tty0tty_close s t = Some ?s'" by (rule close_attached [OF at nn])
  have d: "dom (tty0tty_table ?s') = dom (tty0tty_table s)"
    using assms(2) by auto
  have z: "?s' = s" if "open_count e = 0"
    using that upd_same_state [OF assms(2)] by simp
  have oc: "map_option open_count (tty0tty_table ?s' t) =
              Some (if 0 < open_count e then open_count e - 1 else 0)"
    using nn by auto
  have cl: "\<exists>s'. tty0tty_close s t = Some s' \<and>
               dom (tty0tty_table s') = dom (tty0tty_table s) \<and>
               map_option open_count (tty0tty_table s' t) =
                 Some (if 0 < open_count e then open_count e - 1 else 0) \<and>
               (open_count e = 0 \<longrightarrow> s' = s)"
    using c d z oc by blast
  have cr: "\<exists>s'. tty0tty_open s u (Some g) = Some (Inr 0, s') \<and>
                 map_option open_count (tty0tty_table s' u) = Some 1"
    if "tty0tty_table s u = None"
    using that by (simp add: open_create)
  from nn op dc cl cr show ?thesis by blast
qed

text \<open>
  Port 0 opened once and closed once: its count is 0 and its record is still in the
  table. Closing it again changes nothing; opening it again gives count 1, and one close
  gives 0 again.
\<close>

theorem open_count_never_negative_witness:
  "run linux_h init_driver [Open 0 (Some zeroed), Close 0] = Some A_closed \<and>
   tty0tty_table A_closed 0 = Some (port_A\<lparr>open_count := 0\<rparr>) \<and>
   open_count (port_A\<lparr>open_count := 0\<rparr>) = 0 \<and>
   tty0tty_close A_closed 0 = Some A_closed \<and>
   do_close (port_A\<lparr>open_count := 0\<rparr>) = Some (port_A\<lparr>open_count := 0\<rparr>) \<and>
   tty0tty_open A_closed 0 None = Some (Inr 0, only_A_open) \<and>
   tty0tty_close only_A_open 0 = Some A_closed \<and>
   tty0tty_table A_closed 1 = None"
proof -
  have reached: "run linux_h init_driver [Open 0 (Some zeroed), Close 0] = Some A_closed"
    by (rule A_closed_reached)
  have slot: "tty0tty_table A_closed 0 = Some (port_A\<lparr>open_count := 0\<rparr>)"
    by (simp add: A_closed_def)
  have rest: "tty0tty_table A_closed 0 = Some (port_A\<lparr>open_count := 0\<rparr>) \<and>
   open_count (port_A\<lparr>open_count := 0\<rparr>) = 0 \<and>
   tty0tty_close A_closed 0 = Some A_closed \<and>
   do_close (port_A\<lparr>open_count := 0\<rparr>) = Some (port_A\<lparr>open_count := 0\<rparr>) \<and>
   tty0tty_open A_closed 0 None = Some (Inr 0, only_A_open) \<and>
   tty0tty_close only_A_open 0 = Some A_closed \<and>
   tty0tty_table A_closed 1 = None"
    using open_count_never_negative [OF reached slot, of None 1 zeroed]
    by (simp add: tty0tty_open_def tty0tty_close_def do_close_def A_closed_def only_A_open_def
          port_A_def active_partner_def partner_index_def INT_MAX_def INT_MIN_def
          Let_def MCR_RTS_def MCR_DTR_def)
  with reached show ?thesis by (rule conjI)
qed

end
